theory Spec2Isabelle
  imports Main "HOL-Library.Sublist"
begin

section \<open>Data model\<close>

text \<open>
  The script object of \<open>core/types\<close>, as the injection code reads it. The optional
  metadata fields are options: the code supplies their defaults itself
  (\<open>script.meta.grant || []\<close>, \<open>script.meta['run-at'] || 'document-end'\<close>,
  \<open>script.meta.sandbox || 'raw'\<close>).
\<close>

datatype injection_method = UserscriptsDynamic | UserscriptsApi | ContentScript

datatype execution_world = USER_SCRIPT | MAIN | ISOLATED

datatype run_at_timing = Document_start | Document_end | Document_idle

record InjectionStrategy =
  strategy_method :: injection_method
  world :: execution_world
  timing :: run_at_timing
  reason :: string

record ScriptMeta =
  name :: string
  grant :: "string list option"
  run_at :: "string option"
  sandbox :: "string option"
  connect :: "string list"
  injectionStrategy :: "InjectionStrategy option"

record UserScript =
  script_id :: string
  content :: string
  meta :: ScriptMeta

text \<open>JavaScript's \<open>x || d\<close> on an optional string: the empty string is falsy too.\<close>

definition str_or :: "string option \<Rightarrow> string \<Rightarrow> string" where
  "str_or x d = (case x of None \<Rightarrow> d | Some v \<Rightarrow> if v = [] then d else v)"

text \<open>\<open>x || []\<close> on an optional array: every array, the empty one too, is truthy.\<close>

definition list_or :: "'a list option \<Rightarrow> 'a list" where
  "list_or x = (case x of None \<Rightarrow> [] | Some v \<Rightarrow> v)"

section \<open>InjectionUtils: pure helpers\<close>

definition needsIsolation :: "UserScript \<Rightarrow> bool" where
  "needsIsolation script =
     (let grants = list_or (grant (meta script))
      in length grants > 0 \<and> \<not> list_all (\<lambda>g. g = ''none'') grants)"

definition convertRunAtTiming :: "string \<Rightarrow> run_at_timing" where
  "convertRunAtTiming runAt =
     (if runAt = ''document-start'' then Document_start
      else if runAt = ''document-end'' then Document_end
      else if runAt = ''document-idle'' then Document_idle
      else Document_end)"

definition getWorldString :: "bool \<Rightarrow> execution_world" where
  "getWorldString isolated = (if isolated then ISOLATED else MAIN)"

section \<open>InjectionStrategySelector\<close>

definition specialAPIs :: "string list" where
  "specialAPIs = [''GM_setValue'', ''GM_getValue'', ''GM_xmlhttpRequest'',
                  ''GM_getResourceText'', ''GM_getResourceURL'']"

text \<open>
  \<open>selectStrategy\<close>; \<open>supportsUserScriptsAPI\<close> is what
  \<open>InjectionUtils.canUseUserScriptsAPI()\<close> answered when the selector asked.
\<close>

definition selectStrategy :: "bool \<Rightarrow> UserScript \<Rightarrow> InjectionStrategy" where
  "selectStrategy supportsUserScriptsAPI script =
     (let grants = list_or (grant (meta script));
          hasGMAPIs = (length grants > 0 \<and> \<not> list_all (\<lambda>g. g = ''none'') grants);
          hasSpecialAPIs = list_ex (\<lambda>g. g \<in> set specialAPIs) grants;
          runAt = str_or (run_at (meta script)) ''document-end'';
          needsEarlyExecution = (runAt = ''document-start'');
          sandboxMode = str_or (sandbox (meta script)) ''raw'';
          needsIsolation = (sandboxMode \<noteq> ''raw'' \<or> hasGMAPIs)
      in if needsEarlyExecution \<and> hasSpecialAPIs \<and> supportsUserScriptsAPI then
           \<lparr> strategy_method = UserscriptsDynamic, world = USER_SCRIPT,
             timing = Document_start,
             reason = ''Early execution with GM APIs requires dynamic UserScripts API'' \<rparr>
         else if hasSpecialAPIs \<and> supportsUserScriptsAPI then
           \<lparr> strategy_method = UserscriptsApi, world = USER_SCRIPT,
             timing = convertRunAtTiming runAt,
             reason = ''GM APIs require UserScripts API with message passing'' \<rparr>
         else if needsIsolation then
           \<lparr> strategy_method = ContentScript, world = USER_SCRIPT,
             timing = convertRunAtTiming runAt,
             reason = ''Isolation required but UserScripts API not available, using content script'' \<rparr>
         else
           \<lparr> strategy_method = ContentScript, world = MAIN,
             timing = convertRunAtTiming runAt,
             reason = ''Simple script without special requirements, using direct injection'' \<rparr>)"

definition getStrategyScore :: "InjectionStrategy \<Rightarrow> UserScript \<Rightarrow> nat" where
  "getStrategyScore strategy script =
     (let base = (if strategy_method strategy = UserscriptsDynamic then 100
                  else if strategy_method strategy = UserscriptsApi then 80
                  else 60);
          requestedTiming = str_or (run_at (meta script)) ''document-end'';
          timingScore = (if convertRunAtTiming requestedTiming = timing strategy then 20 else 0);
          grants = list_or (grant (meta script));
          hasGMAPIs = list_ex (\<lambda>g. g \<noteq> ''none'') grants;
          grantScore = (if hasGMAPIs \<and> world strategy = USER_SCRIPT then 15 else 0)
      in base + timingScore + grantScore)"

section \<open>Build modes and feature flags\<close>

text \<open>
  \<open>BuildMode\<close> of \<open>config/build-modes.ts\<close>. The free-text \<open>description\<close> field is left
  out; nothing reads it.
\<close>

datatype feature = UserScriptsAPI | LegacyInjection | DynamicCodeExecution | StrictCSP | EvalFallback

record Features =
  userScriptsAPI :: bool
  legacyInjection :: bool
  dynamicCodeExecution :: bool
  strictCSP :: bool
  evalFallback :: bool

record BuildMode =
  mode_name :: string
  features :: Features
  permissions :: "string list"
  storeCompliant :: bool
  minimumChromeVersion :: "string option"

definition store_mode :: BuildMode where
  "store_mode =
     \<lparr> mode_name = ''Store Compliant'',
       features = \<lparr> userScriptsAPI = True, legacyInjection = False,
                    dynamicCodeExecution = False, strictCSP = True, evalFallback = False \<rparr>,
       permissions = [''activeTab'', ''storage'', ''scripting'', ''tabs'', ''userScripts''],
       storeCompliant = True,
       minimumChromeVersion = Some ''120'' \<rparr>"

definition compat_mode :: BuildMode where
  "compat_mode =
     \<lparr> mode_name = ''Maximum Compatibility'',
       features = \<lparr> userScriptsAPI = True, legacyInjection = True,
                    dynamicCodeExecution = True, strictCSP = True, evalFallback = True \<rparr>,
       permissions = [''activeTab'', ''storage'', ''scripting'', ''tabs'', ''userScripts''],
       storeCompliant = False,
       minimumChromeVersion = None \<rparr>"

definition BUILD_MODES :: "(string \<times> BuildMode) list" where
  "BUILD_MODES = [(''store'', store_mode), (''compat'', compat_mode)]"

text \<open>
  \<open>getCurrentBuildMode\<close>: the argument is \<open>process.env.BUILD_MODE\<close>; \<open>None\<close> as result
  is the thrown "Unknown build mode". The table is read as holding its two own keys
  only; names a JavaScript object inherits (such as \<open>constructor\<close>) are outside it.
\<close>

definition getCurrentBuildMode :: "string option \<Rightarrow> BuildMode option" where
  "getCurrentBuildMode env_mode = map_of BUILD_MODES (str_or env_mode ''store'')"

text \<open>\<open>isFeatureEnabled\<close>, with the current build mode as argument: \<open>mode.features[feature]\<close>.\<close>

definition isFeatureEnabled :: "BuildMode \<Rightarrow> feature \<Rightarrow> bool" where
  "isFeatureEnabled mode f =
     (case f of
        UserScriptsAPI \<Rightarrow> userScriptsAPI (features mode)
      | LegacyInjection \<Rightarrow> legacyInjection (features mode)
      | DynamicCodeExecution \<Rightarrow> dynamicCodeExecution (features mode)
      | StrictCSP \<Rightarrow> strictCSP (features mode)
      | EvalFallback \<Rightarrow> evalFallback (features mode))"

text \<open>
  The flags the injection code asks for: the five features and \<open>storeCompliant\<close>, which is
  a field of the build mode itself. \<open>getFeatureFlags\<close> is the flat view of a build mode
  (\<open>storeCompliant: mode.storeCompliant, ...mode.features\<close>). The injection engine imports
  its \<open>isFeatureEnabled\<close> from \<open>config/feature-flags\<close>; the engine below therefore takes
  the flag lookup as an argument of type \<open>flag \<Rightarrow> bool\<close>.
\<close>

datatype flag = StoreCompliant | Feature feature

definition getFeatureFlags :: "BuildMode \<Rightarrow> flag \<Rightarrow> bool" where
  "getFeatureFlags mode fl =
     (case fl of StoreCompliant \<Rightarrow> storeCompliant mode | Feature f \<Rightarrow> isFeatureEnabled mode f)"

section \<open>Effects of an inject call\<close>

text \<open>
  An inject call talks to the browser (\<open>chrome.userScripts\<close>, \<open>chrome.scripting\<close>) and
  keeps one piece of state of its own, the key set of
  \<open>UserScriptsAPIManager.registeredScripts\<close>. A computation takes that key set and returns
  its outcome (\<open>Inl\<close> a thrown error), the new key set and the events it produced, in
  order. Logger calls have no effect on control flow and are not events.

  The code of one inject call has no loop, so every browser call sits at one place of the
  call tree and is made at most once there. A place is an \<open>origin\<close> (the engine itself; a
  strategy the engine invoked in its first attempt, in the hybrid fallback or in the
  emergency fallback; the compliant strategy run from inside the compatibility strategy
  of that tier) and the operation. The browser is a function from places to answers:
  \<open>True\<close> for "available" or "resolved", \<open>False\<close> for "unavailable" or "threw".
\<close>

datatype tier = Primary | Fallback | Emergency

datatype origin = Engine | Top tier | Inner tier

datatype executor_kind = CompliantExecutor | EnhancedExecutor

datatype host_op =
    SelectorCanUse
  | CompliantCanUse
  | RegisterIsAvailable
  | UnregisterIsAvailable
  | UserScriptsUnregister
  | UserScriptsRegister
  | BridgeSetId
  | BridgeFile
  | ExecuteScript executor_kind execution_world

type_synonym host = "origin \<Rightarrow> host_op \<Rightarrow> bool"

datatype strategy_class = Compliant | Compatibility

datatype error =
    NonCompliantScript "string list"
  | NonCompliantNamed string "string list"
  | UserScriptsUnavailable
  | HostError origin host_op

datatype event =
    StrategySelected InjectionStrategy
  | StrategyAttached string InjectionStrategy
  | ContentValidated origin bool
  | Inject strategy_class origin
  | LegacyMethods tier
  | Host origin host_op bool
  | BatchCompleted nat nat nat
  | BatchItemFailed nat string error

record ValidationResult =
  safe :: bool
  issues :: "string list"

type_synonym 'a prog = "string set \<Rightarrow> (error + 'a) \<times> string set \<times> event list"

definition outcome :: "(error + 'a) \<times> string set \<times> event list \<Rightarrow> error + 'a" where
  "outcome r = fst r"

definition registry :: "(error + 'a) \<times> string set \<times> event list \<Rightarrow> string set" where
  "registry r = fst (snd r)"

definition events :: "(error + 'a) \<times> string set \<times> event list \<Rightarrow> event list" where
  "events r = snd (snd r)"

definition pureE :: "'a \<Rightarrow> 'a prog" where
  "pureE x = (\<lambda>reg. (Inr x, reg, []))"

definition throwE :: "error \<Rightarrow> 'a prog" where
  "throwE e = (\<lambda>reg. (Inl e, reg, []))"

definition bindE :: "'a prog \<Rightarrow> ('a \<Rightarrow> 'b prog) \<Rightarrow> 'b prog" where
  "bindE m f =
     (\<lambda>reg. case m reg of
        (Inl e, reg1, tr) \<Rightarrow> (Inl e, reg1, tr)
      | (Inr x, reg1, tr) \<Rightarrow> (case f x reg1 of (r, reg2, tr2) \<Rightarrow> (r, reg2, tr @ tr2)))"

definition seqE :: "'a prog \<Rightarrow> 'b prog \<Rightarrow> 'b prog" where
  "seqE m n = bindE m (\<lambda>_. n)"

text \<open>\<open>try { m } catch (e) { h e }\<close>\<close>

definition catchE :: "'a prog \<Rightarrow> (error \<Rightarrow> 'a prog) \<Rightarrow> 'a prog" where
  "catchE m h =
     (\<lambda>reg. case m reg of
        (Inl e, reg1, tr) \<Rightarrow> (case h e reg1 of (r, reg2, tr2) \<Rightarrow> (r, reg2, tr @ tr2))
      | (Inr x, reg1, tr) \<Rightarrow> (Inr x, reg1, tr))"

definition emit :: "event \<Rightarrow> unit prog" where
  "emit e = (\<lambda>reg. (Inr (), reg, [e]))"

definition getRegistry :: "string set prog" where
  "getRegistry = (\<lambda>reg. (Inr reg, reg, []))"

definition modifyRegistry :: "(string set \<Rightarrow> string set) \<Rightarrow> unit prog" where
  "modifyRegistry f = (\<lambda>reg. (Inr (), f reg, []))"

text \<open>A browser property that is read (it cannot throw), and a browser call that may throw.\<close>

definition hostRead :: "host \<Rightarrow> origin \<Rightarrow> host_op \<Rightarrow> bool prog" where
  "hostRead h org op = seqE (emit (Host org op (h org op))) (pureE (h org op))"

definition hostCall :: "host \<Rightarrow> origin \<Rightarrow> host_op \<Rightarrow> unit prog" where
  "hostCall h org op =
     seqE (emit (Host org op (h org op)))
          (if h org op then pureE () else throwE (HostError org op))"

section \<open>UserScriptsAPIManager\<close>

definition unregisterScript :: "host \<Rightarrow> origin \<Rightarrow> string \<Rightarrow> unit prog" where
  "unregisterScript h org scriptId =
     bindE (hostRead h org UnregisterIsAvailable) (\<lambda>available.
       if \<not> available then pureE ()
       else bindE getRegistry (\<lambda>registeredScripts.
         if scriptId \<in> registeredScripts then
           catchE (seqE (hostCall h org UserScriptsUnregister)
                        (modifyRegistry (\<lambda>reg. reg - {scriptId})))
                  (\<lambda>error. pureE ())
         else pureE ()))"

definition registerScriptCompliant :: "host \<Rightarrow> origin \<Rightarrow> UserScript \<Rightarrow> unit prog" where
  "registerScriptCompliant h org script =
     bindE (hostRead h org RegisterIsAvailable) (\<lambda>available.
       if \<not> available then throwE UserScriptsUnavailable
       else seqE (unregisterScript h org (script_id script))
           (seqE (hostCall h org UserScriptsRegister)
                 (modifyRegistry (insert (script_id script)))))"

section \<open>CompliantInjectionStrategy\<close>

definition injectAPIBridge :: "host \<Rightarrow> origin \<Rightarrow> unit prog" where
  "injectAPIBridge h org = seqE (hostCall h org BridgeSetId) (hostCall h org BridgeFile)"

definition injectViaUserScripts :: "host \<Rightarrow> origin \<Rightarrow> UserScript \<Rightarrow> unit prog" where
  "injectViaUserScripts h org script = registerScriptCompliant h org script"

definition injectViaScripting :: "host \<Rightarrow> origin \<Rightarrow> UserScript \<Rightarrow> unit prog" where
  "injectViaScripting h org script =
     (let isolated = needsIsolation script;
          w = getWorldString isolated
      in seqE (if isolated then injectAPIBridge h org else pureE ())
              (hostCall h org (ExecuteScript CompliantExecutor w)))"

text \<open>
  \<open>CompliantInjectionStrategy.inject\<close>. \<open>validate\<close> is
  \<open>CompliantScriptExecutor.validateScriptContent\<close>, which is not among the sources and is
  an argument here. The strategy record \<open>injectViaUserScripts\<close> builds only fills in the
  registration request handed to the browser.
\<close>

definition CompliantInjectionStrategy_inject ::
  "(flag \<Rightarrow> bool) \<Rightarrow> (UserScript \<Rightarrow> ValidationResult) \<Rightarrow> host \<Rightarrow> origin \<Rightarrow> UserScript \<Rightarrow> unit prog"
where
  "CompliantInjectionStrategy_inject flags validate h org script =
     seqE (emit (Inject Compliant org))
     (let validation = validate script
      in seqE (emit (ContentValidated org (safe validation)))
        (seqE (if \<not> safe validation \<and> flags StoreCompliant
               then throwE (NonCompliantNamed (name (meta script)) (issues validation))
               else pureE ())
          (bindE (hostRead h org CompliantCanUse) (\<lambda>canUse.
             if canUse then injectViaUserScripts h org script
             else injectViaScripting h org script))))"

section \<open>CompatibilityInjectionStrategy\<close>

definition injectWithLegacyMethods :: "host \<Rightarrow> tier \<Rightarrow> UserScript \<Rightarrow> unit prog" where
  "injectWithLegacyMethods h t script =
     seqE (emit (LegacyMethods t))
     (let isolated = needsIsolation script;
          w = getWorldString isolated
      in seqE (if isolated then injectAPIBridge h (Top t) else pureE ())
              (hostCall h (Top t) (ExecuteScript EnhancedExecutor w)))"

definition CompatibilityInjectionStrategy_inject ::
  "(flag \<Rightarrow> bool) \<Rightarrow> (UserScript \<Rightarrow> ValidationResult) \<Rightarrow> host \<Rightarrow> tier \<Rightarrow> UserScript \<Rightarrow> unit prog"
where
  "CompatibilityInjectionStrategy_inject flags validate h t script =
     seqE (emit (Inject Compatibility (Top t)))
       (catchE (CompliantInjectionStrategy_inject flags validate h (Inner t) script)
               (\<lambda>error. injectWithLegacyMethods h t script))"

section \<open>UnifiedInjectionEngine\<close>

definition attachStrategy :: "InjectionStrategy \<Rightarrow> UserScript \<Rightarrow> UserScript" where
  "attachStrategy strategy script =
     script\<lparr> meta := (meta script)\<lparr> injectionStrategy := Some strategy \<rparr> \<rparr>"

text \<open>
  \<open>injectScript\<close>. The selector reads \<open>InjectionUtils.canUseUserScriptsAPI()\<close> (the
  synchronous one of \<open>injection/utils.ts\<close>); the assignment to
  \<open>script.meta._injectionStrategy\<close> is the event \<open>StrategyAttached\<close>, and the script
  handed on is the annotated one.
\<close>

definition injectScript ::
  "(flag \<Rightarrow> bool) \<Rightarrow> (UserScript \<Rightarrow> ValidationResult) \<Rightarrow> host \<Rightarrow> UserScript \<Rightarrow> unit prog"
where
  "injectScript flags validate h script0 =
     bindE (hostRead h Engine SelectorCanUse) (\<lambda>supportsUserScriptsAPI.
       let strategy = selectStrategy supportsUserScriptsAPI script0;
           script = attachStrategy strategy script0
       in seqE (emit (StrategySelected strategy))
         (seqE (emit (StrategyAttached (script_id script0) strategy))
         (seqE (if flags StoreCompliant then
                  (let validation = validate script
                   in seqE (emit (ContentValidated Engine (safe validation)))
                        (if \<not> safe validation
                         then throwE (NonCompliantScript (issues validation))
                         else pureE ()))
                else pureE ())
           (catchE
              (if flags StoreCompliant then
                 CompliantInjectionStrategy_inject flags validate h (Top Primary) script
               else if flags (Feature LegacyInjection) then
                 CompatibilityInjectionStrategy_inject flags validate h Primary script
               else
                 catchE (CompliantInjectionStrategy_inject flags validate h (Top Primary) script)
                        (\<lambda>compliantError.
                           CompatibilityInjectionStrategy_inject flags validate h Fallback script))
              (\<lambda>error.
                 if \<not> flags StoreCompliant \<and> \<not> flags (Feature LegacyInjection)
                    \<and> flags (Feature EvalFallback)
                 then catchE (CompatibilityInjectionStrategy_inject flags validate h Emergency script)
                             (\<lambda>fallbackError. throwE fallbackError)
                 else throwE error)))))"

text \<open>
  \<open>injectMultipleScripts\<close>: \<open>Promise.allSettled\<close> over one inject call per script, then
  the summary log and one log entry per rejected item. Each task's browser calls are
  answered by that task's own browser function \<open>hs i\<close>; the tasks are run to completion
  one after the other, in batch order (how the JavaScript scheduler interleaves them at
  their \<open>await\<close>s is not modelled).
\<close>

datatype settled = Fulfilled | Rejected error

fun settledOf :: "error + unit \<Rightarrow> settled" where
  "settledOf (Inl e) = Rejected e"
| "settledOf (Inr _) = Fulfilled"

definition settle :: "unit prog \<Rightarrow> settled prog" where
  "settle m = (\<lambda>reg. case m reg of (r, reg1, tr) \<Rightarrow> (Inr (settledOf r), reg1, tr))"

fun allSettled :: "unit prog list \<Rightarrow> settled list prog" where
  "allSettled [] = pureE []"
| "allSettled (t # ts) =
     bindE (settle t) (\<lambda>r. bindE (allSettled ts) (\<lambda>rs. pureE (r # rs)))"

fun logFailures :: "nat \<Rightarrow> UserScript list \<Rightarrow> settled list \<Rightarrow> unit prog" where
  "logFailures i (script # scripts) (Rejected e # rs) =
     seqE (emit (BatchItemFailed i (script_id script) e)) (logFailures (Suc i) scripts rs)"
| "logFailures i (script # scripts) (Fulfilled # rs) = logFailures (Suc i) scripts rs"
| "logFailures i _ _ = pureE ()"

definition injectAllSettled ::
  "(flag \<Rightarrow> bool) \<Rightarrow> (UserScript \<Rightarrow> ValidationResult) \<Rightarrow> (nat \<Rightarrow> host) \<Rightarrow> UserScript list
     \<Rightarrow> settled list prog"
where
  "injectAllSettled flags validate hs scripts =
     allSettled (map (\<lambda>(i, script). injectScript flags validate (hs i) script)
                     (enumerate 0 scripts))"

definition injectMultipleScripts ::
  "(flag \<Rightarrow> bool) \<Rightarrow> (UserScript \<Rightarrow> ValidationResult) \<Rightarrow> (nat \<Rightarrow> host) \<Rightarrow> UserScript list
     \<Rightarrow> unit prog"
where
  "injectMultipleScripts flags validate hs scripts =
     bindE (injectAllSettled flags validate hs scripts) (\<lambda>results.
       let successful = length (filter (\<lambda>r. r = Fulfilled) results);
           failed = length (filter (\<lambda>r. r \<noteq> Fulfilled) results)
       in seqE (emit (BatchCompleted (length scripts) successful failed))
               (logFailures 0 scripts results))"

text \<open>Reading a trace.\<close>

fun isEngineCall :: "event \<Rightarrow> bool" where
  "isEngineCall (Inject c (Top t)) = True"
| "isEngineCall _ = False"

text \<open>The strategy invocations the engine itself makes, in order.\<close>

definition engineCalls :: "event list \<Rightarrow> event list" where
  "engineCalls tr = filter isEngineCall tr"

text \<open>What a strategy does: its invocation and every browser call made on its behalf.\<close>

fun isStrategyRun :: "event \<Rightarrow> bool" where
  "isStrategyRun (Inject c org) = True"
| "isStrategyRun (LegacyMethods t) = True"
| "isStrategyRun (Host org op b) = (org \<noteq> Engine)"
| "isStrategyRun (ContentValidated org b) = (org \<noteq> Engine)"
| "isStrategyRun _ = False"

text \<open>Events of the emergency tier.\<close>

fun inEmergency :: "event \<Rightarrow> bool" where
  "inEmergency (Inject c org) = (org = Top Emergency \<or> org = Inner Emergency)"
| "inEmergency (LegacyMethods t) = (t = Emergency)"
| "inEmergency (Host org op b) = (org = Top Emergency \<or> org = Inner Emergency)"
| "inEmergency (ContentValidated org b) = (org = Top Emergency \<or> org = Inner Emergency)"
| "inEmergency _ = False"

text \<open>Events of one tier: the strategy invocations of that tier and what they do.\<close>

fun inTier :: "tier \<Rightarrow> event \<Rightarrow> bool" where
  "inTier t (Inject c org) = (org = Top t \<or> org = Inner t)"
| "inTier t (LegacyMethods t') = (t = t')"
| "inTier t (Host org op b) = (org = Top t \<or> org = Inner t)"
| "inTier t (ContentValidated org b) = (org = Top t \<or> org = Inner t)"
| "inTier t _ = False"

text \<open>The engine's own validation step.\<close>

fun isEngineValidation :: "event \<Rightarrow> bool" where
  "isEngineValidation (ContentValidated org b) = (org = Engine)"
| "isEngineValidation _ = False"

text \<open>
  The parts of an inject call, for stating where each begins: the selection with which
  every call opens, the script with the strategy attached, and the run of each tier.
  In hybrid mode the compliant tier starts in the registry the call was given, the
  permissive tier in the registry the compliant tier left, and the emergency tier in the
  registry the permissive tier left; in permissive mode the one tier is the
  compatibility strategy, invoked in the place of the first attempt.
\<close>

definition annotated :: "host \<Rightarrow> UserScript \<Rightarrow> UserScript" where
  "annotated h script = attachStrategy (selectStrategy (h Engine SelectorCanUse) script) script"

definition selectionEvents :: "host \<Rightarrow> UserScript \<Rightarrow> event list" where
  "selectionEvents h script =
     [Host Engine SelectorCanUse (h Engine SelectorCanUse),
      StrategySelected (selectStrategy (h Engine SelectorCanUse) script),
      StrategyAttached (script_id script) (selectStrategy (h Engine SelectorCanUse) script)]"

definition compliantTier ::
  "(flag \<Rightarrow> bool) \<Rightarrow> (UserScript \<Rightarrow> ValidationResult) \<Rightarrow> host \<Rightarrow> UserScript \<Rightarrow> unit prog"
where
  "compliantTier flags validate h script reg =
     CompliantInjectionStrategy_inject flags validate h (Top Primary) (annotated h script) reg"

definition permissiveTier ::
  "(flag \<Rightarrow> bool) \<Rightarrow> (UserScript \<Rightarrow> ValidationResult) \<Rightarrow> host \<Rightarrow> UserScript \<Rightarrow> unit prog"
where
  "permissiveTier flags validate h script reg =
     CompatibilityInjectionStrategy_inject flags validate h Fallback (annotated h script)
       (registry (compliantTier flags validate h script reg))"

definition emergencyTier ::
  "(flag \<Rightarrow> bool) \<Rightarrow> (UserScript \<Rightarrow> ValidationResult) \<Rightarrow> host \<Rightarrow> UserScript \<Rightarrow> unit prog"
where
  "emergencyTier flags validate h script reg =
     CompatibilityInjectionStrategy_inject flags validate h Emergency (annotated h script)
       (registry (permissiveTier flags validate h script reg))"

definition permissiveOnly ::
  "(flag \<Rightarrow> bool) \<Rightarrow> (UserScript \<Rightarrow> ValidationResult) \<Rightarrow> host \<Rightarrow> UserScript \<Rightarrow> unit prog"
where
  "permissiveOnly flags validate h script reg =
     CompatibilityInjectionStrategy_inject flags validate h Primary (annotated h script) reg"

text \<open>The per-item failure entries \<open>injectMultipleScripts\<close> logs for the given results.\<close>

fun failureEntry :: "nat \<Rightarrow> UserScript \<Rightarrow> settled \<Rightarrow> event list" where
  "failureEntry i script (Rejected e) = [BatchItemFailed i (script_id script) e]"
| "failureEntry i script Fulfilled = []"

definition failureReport :: "UserScript list \<Rightarrow> settled list \<Rightarrow> event list" where
  "failureReport scripts results =
     concat (map (\<lambda>i. failureEntry i (scripts ! i) (results ! i)) [0..<length scripts])"

text \<open>Proof devices: every event of a computation satisfies \<open>P\<close>; the events of an
  origin satisfy \<open>P\<close>; the outcome of a computation does not depend on the registry.\<close>

definition emits :: "(event \<Rightarrow> bool) \<Rightarrow> 'a prog \<Rightarrow> bool" where
  "emits P m = (\<forall>reg. list_all P (events (m reg)))"

definition originOK :: "(event \<Rightarrow> bool) \<Rightarrow> origin \<Rightarrow> bool" where
  "originOK P org = ((\<forall>op b. P (Host org op b)) \<and> (\<forall>b. P (ContentValidated org b)))"

definition outcomeIndep :: "'a prog \<Rightarrow> bool" where
  "outcomeIndep m = (\<forall>reg reg'. outcome (m reg) = outcome (m reg'))"

section \<open>The cached capability probe\<close>


datatype permission_reply = Granted | Denied | PermissionThrows


datatype probe_event =
    ReadUserScriptsObject
  | PermissionsContains
  | ReadRegisterMethod
  | GetScripts
  | GuidanceEmit string "string option"
  | Wait nat

record api_cache =
  available :: bool
  timestamp :: int

record probe_state =
  userScriptsAPICache :: "api_cache option"
  io :: "probe_event list"









definition clearUserScriptsAPICache :: "probe_state \<Rightarrow> probe_state" where
  "clearUserScriptsAPICache s = s\<lparr> userScriptsAPICache := None \<rparr>"




section \<open>The enhanced script executor\<close>

text \<open>
  The function \<open>createEnhancedScriptExecutor\<close> returns; it runs inside the page. The page
  is a \<open>page_host\<close>: which DOM operations complete (the others throw), the nonce found
  on an existing script element, whether \<open>window.trustedTypes.createPolicy\<close> exists,
  whether \<open>new Function\<close> returns, whether calling the function returns, whether
  \<open>eval\<close> returns. The result is the list of what the executor did, console lines
  included (the texts of the console lines are the constructors of \<open>console_msg\<close>).
\<close>

datatype dom_op =
    CreateElement
  | SetTextContent string
  | QueryNonce
  | SetNonceAttribute string
  | CreatePolicy
  | PolicyCreateScript string
  | SetTrustedTextContent string
  | AppendChild
  | RemoveElement

datatype console_level = Log | Warn | ErrorLevel

datatype console_msg =
    Executing string
  | ScriptTagSuccessful string
  | FunctionConstructorSuccessful string
  | EvalFallbackSuccessful string
  | AllMethodsFailed string
  | ScriptTagFailed
  | FunctionConstructorFailed
  | EvalFallbackFailed

datatype page_event =
    Dom dom_op
  | NewFunction string
  | CallFunction
  | EvalCall string
  | Console console_level console_msg

record page_host =
  domCompletes :: "dom_op \<Rightarrow> bool"
  nonce :: "string option"
  trustedTypes :: bool
  functionConstructs :: bool
  functionReturns :: bool
  evalReturns :: bool

text \<open>Straight-line code inside one \<open>try\<close>: the operations run in order up to the first
  that throws.\<close>

fun runDom :: "(dom_op \<Rightarrow> bool) \<Rightarrow> dom_op list \<Rightarrow> bool \<times> page_event list" where
  "runDom ok [] = (True, [])"
| "runDom ok (d # ds) =
     (if ok d then (case runDom ok ds of (r, tr) \<Rightarrow> (r, Dom d # tr))
      else (False, [Dom d]))"

definition scriptTagSteps :: "page_host \<Rightarrow> string \<Rightarrow> dom_op list" where
  "scriptTagSteps ph code =
     [CreateElement, SetTextContent code, QueryNonce]
     @ (case nonce ph of
          None \<Rightarrow> []
        | Some n \<Rightarrow> if n = [] then [] else [SetNonceAttribute n])
     @ (if trustedTypes ph
        then [CreatePolicy, PolicyCreateScript code, SetTrustedTextContent code]
        else [])
     @ [AppendChild, RemoveElement]"

definition tryScriptTagInjection :: "page_host \<Rightarrow> string \<Rightarrow> bool \<times> page_event list" where
  "tryScriptTagInjection ph code =
     (case runDom (domCompletes ph) (scriptTagSteps ph code) of
        (True, tr) \<Rightarrow> (True, tr)
      | (False, tr) \<Rightarrow> (False, tr @ [Console Warn ScriptTagFailed]))"

definition tryFunctionConstructor :: "page_host \<Rightarrow> string \<Rightarrow> bool \<times> page_event list" where
  "tryFunctionConstructor ph code =
     (if \<not> functionConstructs ph then
        (False, [NewFunction code, Console Warn FunctionConstructorFailed])
      else if \<not> functionReturns ph then
        (False, [NewFunction code, CallFunction, Console Warn FunctionConstructorFailed])
      else (True, [NewFunction code, CallFunction]))"

definition tryEvalFallback :: "page_host \<Rightarrow> string \<Rightarrow> bool \<times> page_event list" where
  "tryEvalFallback ph code =
     (if evalReturns ph then (True, [EvalCall code])
      else (False, [EvalCall code, Console ErrorLevel EvalFallbackFailed]))"

definition createEnhancedScriptExecutor :: "page_host \<Rightarrow> string \<Rightarrow> string \<Rightarrow> page_event list" where
  "createEnhancedScriptExecutor ph scriptContent scriptName =
     (let (ok1, tr1) = tryScriptTagInjection ph scriptContent
      in if ok1 then
           Console Log (Executing scriptName) # tr1
           @ [Console Log (ScriptTagSuccessful scriptName)]
         else
           (let (ok2, tr2) = tryFunctionConstructor ph scriptContent
            in if ok2 then
                 Console Log (Executing scriptName) # tr1 @ tr2
                 @ [Console Log (FunctionConstructorSuccessful scriptName)]
               else
                 (let (ok3, tr3) = tryEvalFallback ph scriptContent
                  in if ok3 then
                       Console Log (Executing scriptName) # tr1 @ tr2 @ tr3
                       @ [Console Log (EvalFallbackSuccessful scriptName)]
                     else
                       Console Log (Executing scriptName) # tr1 @ tr2 @ tr3
                       @ [Console ErrorLevel (AllMethodsFailed scriptName)])))"

text \<open>Reading the executor's trace: which methods were tried, and the console lines.\<close>

datatype exec_method = ScriptTag | FunctionConstructor | EvalFallbackMethod

fun attempts :: "page_event list \<Rightarrow> exec_method list" where
  "attempts [] = []"
| "attempts (Dom CreateElement # tr) = ScriptTag # attempts tr"
| "attempts (NewFunction c # tr) = FunctionConstructor # attempts tr"
| "attempts (EvalCall c # tr) = EvalFallbackMethod # attempts tr"
| "attempts (e # tr) = attempts tr"

fun consoleLines :: "page_event list \<Rightarrow> (console_level \<times> console_msg) list" where
  "consoleLines [] = []"
| "consoleLines (Console l m # tr) = (l, m) # consoleLines tr"
| "consoleLines (e # tr) = consoleLines tr"

text \<open>Pages: one with a CSP nonce and Trusted Types where everything works, one where
  the DOM and \<open>new Function\<close> are blocked and only \<open>eval\<close> runs.\<close>

definition friendlyPage :: page_host where
  "friendlyPage = \<lparr> domCompletes = (\<lambda>d. True), nonce = Some ''abc123'', trustedTypes = True,
                     functionConstructs = True, functionReturns = True, evalReturns = True \<rparr>"

definition evalOnlyPage :: page_host where
  "evalOnlyPage = \<lparr> domCompletes = (\<lambda>d. d \<noteq> AppendChild), nonce = None, trustedTypes = False,
                     functionConstructs = False, functionReturns = True, evalReturns = True \<rparr>"

section \<open>GMAPIManager: GM\_xmlhttpRequest\<close>

text \<open>
  \<open>handleGMXMLHttpRequest\<close> and the \<open>GM_xmlhttpRequest\<close> case of \<open>handleAPICall\<close>. Of the
  payload only \<open>scriptId\<close> and \<open>details\<close> are read here. The network is a \<open>net_host\<close>:
  \<open>hostnameOf\<close> is \<open>new URL(url).hostname\<close> (\<open>Inl\<close> the message of the TypeError when the
  constructor throws) and
  \<open>fetchReply\<close> what \<open>fetch\<close> does with the request. The result comes with the list of
  fetches issued. The script cache is read as holding the cached scripts only; a
  \<open>scriptId\<close> that names a property every JavaScript object inherits is outside it (the
  source then throws on \<open>script.meta.connect\<close>, before any fetch).
\<close>

record RequestDetails =
  url :: string
  http_method :: "string option"
  headers :: "(string \<times> string) list option"
  request_data :: "string option"

record GMAPIPayload =
  scriptId :: "string option"
  details :: "RequestDetails option"

record ResponseData =
  responseText :: string
  status :: nat
  statusText :: string
  responseHeaders :: string
  finalUrl :: string

datatype GMAPIResponse = Success ResponseData | Error string

datatype fetch_reply = Responds ResponseData | FetchThrows string

record net_host =
  hostnameOf :: "string \<Rightarrow> string + string"
  fetchReply :: "string \<Rightarrow> string \<Rightarrow> fetch_reply"

datatype net_event = Fetch string string

datatype js_exception = TypeError string

definition isAllowed :: "string list \<Rightarrow> string \<Rightarrow> bool" where
  "isAllowed connectList hostname =
     list_ex (\<lambda>domain. domain = ''*'' \<or> hostname = domain \<or> suffix (''.'' @ domain) hostname)
       connectList"

definition handleGMXMLHttpRequest ::
  "net_host \<Rightarrow> (string \<rightharpoonup> UserScript) \<Rightarrow> GMAPIPayload
     \<Rightarrow> (js_exception + GMAPIResponse) \<times> net_event list"
where
  "handleGMXMLHttpRequest net scriptCache payload =
     (case (scriptId payload, details payload) of
        (Some sid, Some d) \<Rightarrow>
          if sid = [] then (Inr (Error ''Missing scriptId or details parameter''), [])
          else
            (case scriptCache sid of
               None \<Rightarrow> (Inr (Error ''Script not found''), [])
             | Some script \<Rightarrow>
                 (case hostnameOf net (url d) of
                    Inl msg \<Rightarrow> (Inl (TypeError msg), [])
                  | Inr hostname \<Rightarrow>
                      if \<not> isAllowed (connect (meta script)) hostname then
                        (Inr (Error (''Domain not whitelisted in @connect: '' @ hostname)), [])
                      else
                        (let m = str_or (http_method d) ''GET''
                         in case fetchReply net (url d) m of
                              Responds r \<Rightarrow> (Inr (Success r), [Fetch (url d) m])
                            | FetchThrows msg \<Rightarrow> (Inr (Error msg), [Fetch (url d) m]))))
      | _ \<Rightarrow> (Inr (Error ''Missing scriptId or details parameter''), []))"

text \<open>\<open>handleAPICall\<close> for the action \<open>GM_xmlhttpRequest\<close>: an exception of the handler
  becomes an error response carrying its message.\<close>

definition handleAPICall_GM_xmlhttpRequest ::
  "net_host \<Rightarrow> (string \<rightharpoonup> UserScript) \<Rightarrow> GMAPIPayload \<Rightarrow> GMAPIResponse \<times> net_event list"
where
  "handleAPICall_GM_xmlhttpRequest net scriptCache payload =
     (case handleGMXMLHttpRequest net scriptCache payload of
        (Inr result, tr) \<Rightarrow> (result, tr)
      | (Inl (TypeError msg), tr) \<Rightarrow> (Error msg, tr))"

text \<open>A network, a script that whitelists \<open>example.com\<close>, and two requests.\<close>

definition demoNet :: net_host where
  "demoNet =
     \<lparr> hostnameOf = (\<lambda>u. if u = ''https://api.example.com/data'' then Inr ''api.example.com''
                           else if u = ''https://evil.test/steal'' then Inr ''evil.test''
                           else Inl ''Invalid URL''),
       fetchReply = (\<lambda>u m. Responds \<lparr> responseText = ''ok'', status = 200, statusText = ''OK'',
                                       responseHeaders = [], finalUrl = u \<rparr>) \<rparr>"

definition connectScript :: UserScript where
  "connectScript =
     \<lparr> script_id = ''s1'', content = ''GM_xmlhttpRequest({})'',
       meta = \<lparr> name = ''demo'', grant = Some [''GM_xmlhttpRequest''], run_at = None,
                sandbox = None, connect = [''example.com''], injectionStrategy = None \<rparr> \<rparr>"

definition demoCache :: "string \<rightharpoonup> UserScript" where
  "demoCache = [''s1'' \<mapsto> connectScript]"

definition requestTo :: "string \<Rightarrow> GMAPIPayload" where
  "requestTo u =
     \<lparr> scriptId = Some ''s1'',
       details = Some \<lparr> url = u, http_method = None, headers = None, request_data = None \<rparr> \<rparr>"

section \<open>Example scripts\<close>

definition mkScript :: "string list option \<Rightarrow> string option \<Rightarrow> string option \<Rightarrow> UserScript" where
  "mkScript g r sb =
     \<lparr> script_id = ''s1'', content = ''console.log(1)'',
       meta = \<lparr> name = ''demo'', grant = g, run_at = r, sandbox = sb,
                connect = [], injectionStrategy = None \<rparr> \<rparr>"

definition scriptNamed :: "string \<Rightarrow> UserScript" where
  "scriptNamed i = (mkScript None None None)\<lparr> script_id := i \<rparr>"

text \<open>Flag settings: the hybrid mode (neither store-compliant nor legacy) with the
  emergency fallback switched on.\<close>

definition hybridEmergencyFlags :: "flag \<Rightarrow> bool" where
  "hybridEmergencyFlags fl = (fl = Feature EvalFallback)"

text \<open>Validators: one that passes everything, one that reports a use of \<open>eval\<close>.\<close>

definition allSafe :: "UserScript \<Rightarrow> ValidationResult" where
  "allSafe script = \<lparr> safe = True, issues = [] \<rparr>"

definition evalUnsafe :: "UserScript \<Rightarrow> ValidationResult" where
  "evalUnsafe script = \<lparr> safe = False, issues = [''eval() usage detected''] \<rparr>"

text \<open>Browsers: one without the UserScripts API on a tab that cannot be scripted (every
  call throws), and one where everything is available and works.\<close>

definition deadHost :: host where
  "deadHost org op = False"

definition goodHost :: host where
  "goodHost org op = True"

section \<open>Strategy selection: theorems\<close>

text \<open>
  C3 (as stated, refuted). The script requests the privileged grant \<open>GM_addStyle\<close>
  (not \<open>none\<close>) with run-at \<open>document-start\<close>, and the UserScripts API is available;
  the selector answers \<open>content-script\<close> in the USER_SCRIPT world with score 95, because
  the first two branches test membership in the list of five special GM APIs, not
  "any grant other than none".
\<close>

theorem selectStrategy_start_grant_counterexample:
  "run_at (meta (mkScript (Some [''GM_addStyle'']) (Some ''document-start'') None))
     = Some ''document-start''
   \<and> list_ex (\<lambda>g. g \<noteq> ''none'')
        (list_or (grant (meta (mkScript (Some [''GM_addStyle'']) (Some ''document-start'') None))))
   \<and> strategy_method
        (selectStrategy True (mkScript (Some [''GM_addStyle'']) (Some ''document-start'') None))
       = ContentScript
   \<and> getStrategyScore
        (selectStrategy True (mkScript (Some [''GM_addStyle'']) (Some ''document-start'') None))
        (mkScript (Some [''GM_addStyle'']) (Some ''document-start'') None) = 95"
  by (simp add: mkScript_def selectStrategy_def getStrategyScore_def Let_def list_or_def
      str_or_def specialAPIs_def convertRunAtTiming_def)

text \<open>
  C3 (amended). A script with run-at \<open>document-start\<close> that requests at least one of the
  five special GM APIs (\<open>GM_setValue\<close>, \<open>GM_getValue\<close>, \<open>GM_xmlhttpRequest\<close>,
  \<open>GM_getResourceText\<close>, \<open>GM_getResourceURL\<close>) gets, when the UserScripts API is
  available, the \<open>userscripts-dynamic\<close> method in the USER_SCRIPT world with
  \<open>document_start\<close> timing, and the score computed for that selection is
  100 + 20 + 15 = 135.
\<close>

theorem selectStrategy_start_special_dynamic:
  assumes "str_or (run_at (meta script)) ''document-end'' = ''document-start''"
      and "\<exists>g \<in> set (list_or (grant (meta script))). g \<in> set specialAPIs"
  shows "strategy_method (selectStrategy True script) = UserscriptsDynamic
       \<and> world (selectStrategy True script) = USER_SCRIPT
       \<and> timing (selectStrategy True script) = Document_start
       \<and> getStrategyScore (selectStrategy True script) script = 135"
proof -
  let ?grants = "list_or (grant (meta script))"
  from assms(2) obtain g where g: "g \<in> set ?grants" "g \<in> set specialAPIs" by blast
  have sp: "list_ex (\<lambda>g. g \<in> set specialAPIs) ?grants"
    using g by (auto simp: list_ex_iff)
  have "g \<noteq> ''none''" using g(2) by (auto simp: specialAPIs_def)
  then have gm: "list_ex (\<lambda>g. g \<noteq> ''none'') ?grants"
    using g(1) by (auto simp: list_ex_iff)
  have sel: "selectStrategy True script =
       \<lparr> strategy_method = UserscriptsDynamic, world = USER_SCRIPT, timing = Document_start,
         reason = ''Early execution with GM APIs requires dynamic UserScripts API'' \<rparr>"
    using sp assms(1) by (simp add: selectStrategy_def Let_def)
  show ?thesis
    using gm assms(1) unfolding sel
    by (simp add: getStrategyScore_def Let_def convertRunAtTiming_def)
qed

theorem selectStrategy_start_special_dynamic_witness:
  "strategy_method (selectStrategy True
       (mkScript (Some [''GM_xmlhttpRequest'']) (Some ''document-start'') None))
     = UserscriptsDynamic
   \<and> getStrategyScore
        (selectStrategy True
           (mkScript (Some [''GM_xmlhttpRequest'']) (Some ''document-start'') None))
        (mkScript (Some [''GM_xmlhttpRequest'']) (Some ''document-start'') None) = 135"
proof -
  let ?s = "mkScript (Some [''GM_xmlhttpRequest'']) (Some ''document-start'') None"
  have h1: "str_or (run_at (meta ?s)) ''document-end'' = ''document-start''"
    by (simp add: mkScript_def str_or_def)
  have h2: "\<exists>g \<in> set (list_or (grant (meta ?s))). g \<in> set specialAPIs"
    by (simp add: mkScript_def list_or_def specialAPIs_def)
  show ?thesis
    using selectStrategy_start_special_dynamic [OF h1 h2] by simp
qed




section \<open>Running computations: lemmas\<close>

lemma outcome_simps [simp]: "outcome (a, b, c) = a" "registry (a, b, c) = b" "events (a, b, c) = c"
  by (simp_all add: outcome_def registry_def events_def)

lemma bindE_run:
  "bindE m f reg = (case outcome (m reg) of
       Inl e \<Rightarrow> (Inl e, registry (m reg), events (m reg))
     | Inr x \<Rightarrow> (outcome (f x (registry (m reg))), registry (f x (registry (m reg))),
                 events (m reg) @ events (f x (registry (m reg)))))"
  by (cases "m reg") (auto simp: bindE_def split: sum.splits prod.splits)

lemma seqE_run:
  "seqE m n reg = (case outcome (m reg) of
       Inl e \<Rightarrow> (Inl e, registry (m reg), events (m reg))
     | Inr x \<Rightarrow> (outcome (n (registry (m reg))), registry (n (registry (m reg))),
                 events (m reg) @ events (n (registry (m reg)))))"
  by (simp add: seqE_def bindE_run)

lemma catchE_run:
  "catchE m h reg = (case outcome (m reg) of
       Inl e \<Rightarrow> (outcome (h e (registry (m reg))), registry (h e (registry (m reg))),
                 events (m reg) @ events (h e (registry (m reg))))
     | Inr x \<Rightarrow> (Inr x, registry (m reg), events (m reg)))"
  by (cases "m reg") (auto simp: catchE_def split: sum.splits prod.splits)

lemma pureE_seqE: "seqE (pureE x) m = m"
  by (rule ext) (simp add: seqE_def bindE_def pureE_def split: prod.splits sum.splits)

lemma throwE_seqE: "seqE (throwE e) m = throwE e"
  by (rule ext) (simp add: seqE_def bindE_def throwE_def)

lemma seqE_assoc: "seqE (seqE a b) c = seqE a (seqE b c)"
  by (rule ext) (simp add: seqE_def bindE_def split: prod.splits sum.splits)

lemma seqE_if: "seqE (if c then a else b) m = (if c then seqE a m else seqE b m)"
  by simp

lemma emit_seqE_run:
  "seqE (emit e) m reg = (outcome (m reg), registry (m reg), e # events (m reg))"
  by (simp add: seqE_run emit_def)

lemma hostRead_bindE_run:
  "bindE (hostRead h org op) f reg =
     (outcome (f (h org op) reg), registry (f (h org op) reg),
      Host org op (h org op) # events (f (h org op) reg))"
  by (simp add: bindE_run hostRead_def seqE_run emit_def pureE_def)

lemma emits_pureE: "emits P (pureE x)" by (simp add: emits_def pureE_def)
lemma emits_throwE: "emits P (throwE x)" by (simp add: emits_def throwE_def)
lemma emits_getRegistry: "emits P getRegistry" by (simp add: emits_def getRegistry_def)
lemma emits_modifyRegistry: "emits P (modifyRegistry f)" by (simp add: emits_def modifyRegistry_def)
lemma emits_emit: "P e \<Longrightarrow> emits P (emit e)" by (simp add: emits_def emit_def)
lemma emits_bindE: "emits P m \<Longrightarrow> (\<And>x. emits P (f x)) \<Longrightarrow> emits P (bindE m f)"
  by (auto simp: emits_def bindE_run split: sum.splits)
lemma emits_seqE: "emits P m \<Longrightarrow> emits P n \<Longrightarrow> emits P (seqE m n)"
  by (simp add: seqE_def emits_bindE)
lemma emits_catchE: "emits P m \<Longrightarrow> (\<And>x. emits P (f x)) \<Longrightarrow> emits P (catchE m f)"
  by (auto simp: emits_def catchE_run split: sum.splits)

lemma emits_hostRead: "originOK P org \<Longrightarrow> emits P (hostRead h org op)"
  by (simp add: hostRead_def originOK_def emits_seqE emits_emit emits_pureE)
lemma emits_hostCall: "originOK P org \<Longrightarrow> emits P (hostCall h org op)"
  by (simp add: hostCall_def originOK_def emits_seqE emits_emit emits_pureE emits_throwE)

lemmas emits_intros = emits_pureE emits_throwE emits_getRegistry emits_modifyRegistry
  emits_bindE emits_seqE emits_catchE emits_hostRead emits_hostCall

lemma emits_unregisterScript: "originOK P org \<Longrightarrow> emits P (unregisterScript h org sid)"
  unfolding unregisterScript_def by (intro emits_intros) (auto intro!: emits_intros)

lemma emits_registerScriptCompliant:
  "originOK P org \<Longrightarrow> emits P (registerScriptCompliant h org script)"
  unfolding registerScriptCompliant_def
  by (intro emits_intros) (auto intro!: emits_intros emits_unregisterScript)

lemma emits_injectAPIBridge: "originOK P org \<Longrightarrow> emits P (injectAPIBridge h org)"
  unfolding injectAPIBridge_def by (intro emits_intros)

lemma emits_injectViaScripting: "originOK P org \<Longrightarrow> emits P (injectViaScripting h org script)"
  unfolding injectViaScripting_def Let_def
  by (intro emits_intros) (auto intro!: emits_intros emits_injectAPIBridge)

lemma emits_Compliant:
  "originOK P org \<Longrightarrow> P (Inject Compliant org) \<Longrightarrow>
   emits P (CompliantInjectionStrategy_inject flags validate h org script)"
  unfolding CompliantInjectionStrategy_inject_def Let_def injectViaUserScripts_def
  by (intro emits_intros emits_emit)
     (auto intro!: emits_intros emits_injectViaScripting emits_registerScriptCompliant simp: originOK_def)

lemma emits_Legacy:
  "originOK P (Top t) \<Longrightarrow> P (LegacyMethods t) \<Longrightarrow> emits P (injectWithLegacyMethods h t script)"
  unfolding injectWithLegacyMethods_def Let_def
  by (intro emits_intros emits_emit) (auto intro!: emits_intros emits_injectAPIBridge)

lemma emits_Compatibility:
  "originOK P (Top t) \<Longrightarrow> originOK P (Inner t) \<Longrightarrow> P (LegacyMethods t) \<Longrightarrow>
   P (Inject Compliant (Inner t)) \<Longrightarrow> P (Inject Compatibility (Top t)) \<Longrightarrow>
   emits P (CompatibilityInjectionStrategy_inject flags validate h t script)"
  unfolding CompatibilityInjectionStrategy_inject_def
  by (intro emits_intros emits_emit emits_Compliant emits_Legacy)

lemma filter_emits: "emits (\<lambda>e. \<not> Q e) m \<Longrightarrow> filter Q (events (m reg)) = []"
  by (auto simp: emits_def list_all_iff filter_empty_conv)

lemma Compliant_events:
  "\<exists>rest. events (CompliantInjectionStrategy_inject flags validate h org script reg)
            = Inject Compliant org # rest
        \<and> list_all (\<lambda>e. (\<exists>op b. e = Host org op b) \<or> (\<exists>b. e = ContentValidated org b)) rest"
proof -
  let ?P = "\<lambda>e. (\<exists>op b. e = Host org op b) \<or> (\<exists>b. e = ContentValidated org b)"
  have ok: "originOK ?P org" by (simp add: originOK_def)
  have "emits ?P
     (let validation = validate script
      in seqE (emit (ContentValidated org (safe validation)))
        (seqE (if \<not> safe validation \<and> flags StoreCompliant
               then throwE (NonCompliantNamed (name (meta script)) (issues validation))
               else pureE ())
          (bindE (hostRead h org CompliantCanUse) (\<lambda>canUse.
             if canUse then injectViaUserScripts h org script
             else injectViaScripting h org script))))"
    unfolding Let_def injectViaUserScripts_def using ok
    by (intro emits_intros emits_emit)
       (auto intro!: emits_intros emits_injectViaScripting emits_registerScriptCompliant)
  then show ?thesis
    unfolding CompliantInjectionStrategy_inject_def emit_seqE_run
    by (simp add: emits_def)
qed

lemma filter_Compliant:
  assumes "originOK (\<lambda>e. \<not> Q e) org"
  shows "filter Q (events (CompliantInjectionStrategy_inject flags validate h org script reg))
           = filter Q [Inject Compliant org]"
proof -
  obtain rest where r: "events (CompliantInjectionStrategy_inject flags validate h org script reg)
            = Inject Compliant org # rest"
     "list_all (\<lambda>e. (\<exists>op b. e = Host org op b) \<or> (\<exists>b. e = ContentValidated org b)) rest"
    using Compliant_events by blast
  have "filter Q rest = []"
    using r(2) assms by (auto simp: list_all_iff filter_empty_conv originOK_def)
  then show ?thesis using r(1) by simp
qed

lemma filter_Compatibility:
  assumes "originOK (\<lambda>e. \<not> Q e) (Top t)" "originOK (\<lambda>e. \<not> Q e) (Inner t)" "\<not> Q (LegacyMethods t)"
  shows "filter Q (events (CompatibilityInjectionStrategy_inject flags validate h t script reg))
           = filter Q [Inject Compatibility (Top t), Inject Compliant (Inner t)]"
proof -
  have leg: "\<And>r. filter Q (events (injectWithLegacyMethods h t script r)) = []"
    by (rule filter_emits, rule emits_Legacy) (use assms in auto)
  show ?thesis
    unfolding CompatibilityInjectionStrategy_inject_def emit_seqE_run
    by (simp add: catchE_run filter_Compliant [OF assms(2)] leg split: sum.splits)
qed

lemma originOK_engineCall: "originOK (\<lambda>e. \<not> isEngineCall e) org"
  by (simp add: originOK_def)

lemma engineCalls_Compliant_Top:
  "engineCalls (events (CompliantInjectionStrategy_inject flags validate h (Top t) script reg))
     = [Inject Compliant (Top t)]"
  by (simp add: engineCalls_def filter_Compliant [OF originOK_engineCall])

lemma engineCalls_Compatibility:
  "engineCalls (events (CompatibilityInjectionStrategy_inject flags validate h t script reg))
     = [Inject Compatibility (Top t)]"
  by (simp add: engineCalls_def filter_Compatibility [OF originOK_engineCall originOK_engineCall])

lemma engineCalls_append: "engineCalls (a @ b) = engineCalls a @ engineCalls b"
  by (simp add: engineCalls_def)

lemma throwE_events [simp]: "events (throwE e reg) = []" by (simp add: throwE_def)

lemma throwE_run: "outcome (throwE e reg) = Inl e" "registry (throwE e reg) = reg"
  by (simp_all add: throwE_def)

lemma indep_pureE: "outcomeIndep (pureE x)" by (simp add: outcomeIndep_def pureE_def)
lemma indep_throwE: "outcomeIndep (throwE x)" by (simp add: outcomeIndep_def throwE_def)
lemma indep_emit: "outcomeIndep (emit e)" by (simp add: outcomeIndep_def emit_def)
lemma indep_modifyRegistry: "outcomeIndep (modifyRegistry f)"
  by (simp add: outcomeIndep_def modifyRegistry_def)
lemma indep_bindE: "outcomeIndep m \<Longrightarrow> (\<And>x. outcomeIndep (f x)) \<Longrightarrow> outcomeIndep (bindE m f)"
  unfolding outcomeIndep_def bindE_run
  by (metis (no_types, lifting) outcome_simps(1) sum.case_eq_if)
lemma indep_seqE: "outcomeIndep m \<Longrightarrow> outcomeIndep n \<Longrightarrow> outcomeIndep (seqE m n)"
  by (simp add: seqE_def indep_bindE)
lemma indep_catchE: "outcomeIndep m \<Longrightarrow> (\<And>x. outcomeIndep (f x)) \<Longrightarrow> outcomeIndep (catchE m f)"
  unfolding outcomeIndep_def catchE_run
  by (metis (no_types, lifting) outcome_simps(1) sum.case_eq_if)
lemma indep_hostRead: "outcomeIndep (hostRead h org op)"
  by (simp add: hostRead_def indep_seqE indep_emit indep_pureE)
lemma indep_hostCall: "outcomeIndep (hostCall h org op)"
  by (simp add: hostCall_def indep_seqE indep_emit indep_pureE indep_throwE)

lemmas indep_intros = indep_pureE indep_throwE indep_emit indep_modifyRegistry indep_bindE
  indep_seqE indep_catchE indep_hostRead indep_hostCall

lemma getRegistry_bindE: "bindE getRegistry f reg = f reg reg"
  by (cases "f reg reg") (simp add: bindE_def getRegistry_def)

lemma unregisterScript_outcome: "outcome (unregisterScript h org sid reg) = Inr ()"
  by (simp add: unregisterScript_def hostRead_bindE_run getRegistry_bindE catchE_run seqE_run
        pureE_def modifyRegistry_def hostCall_def emit_def throwE_def
      split: sum.splits)

lemma indep_unregisterScript: "outcomeIndep (unregisterScript h org sid)"
  by (simp add: outcomeIndep_def unregisterScript_outcome)

lemma indep_Compliant: "outcomeIndep (CompliantInjectionStrategy_inject flags validate h org script)"
  unfolding CompliantInjectionStrategy_inject_def Let_def injectViaUserScripts_def
    registerScriptCompliant_def injectViaScripting_def injectAPIBridge_def
  by (intro indep_intros) (auto intro!: indep_intros indep_unregisterScript)

lemma indep_Compatibility:
  "outcomeIndep (CompatibilityInjectionStrategy_inject flags validate h t script)"
  unfolding CompatibilityInjectionStrategy_inject_def injectWithLegacyMethods_def Let_def
    injectAPIBridge_def
  by (intro indep_intros indep_Compliant) (auto intro!: indep_intros)

lemma indep_injectScript: "outcomeIndep (injectScript flags validate h script)"
  unfolding injectScript_def Let_def
  by (intro indep_intros) (auto intro!: indep_intros indep_Compliant indep_Compatibility)

lemma allSettled_outcome:
  assumes "\<forall>t \<in> set ts. outcomeIndep t"
  shows "outcome (allSettled ts reg) = Inr (map (\<lambda>t. settledOf (outcome (t reg0))) ts)"
  using assms
proof (induction ts arbitrary: reg)
  case Nil
  then show ?case by (simp add: pureE_def)
next
  case (Cons t ts)
  have t: "outcome (t reg) = outcome (t reg0)"
    using Cons.prems by (simp add: outcomeIndep_def)
  have s: "settle t reg = (Inr (settledOf (outcome (t reg))), registry (t reg), events (t reg))"
    by (cases "t reg") (simp add: settle_def)
  show ?case
    using Cons.IH [of "registry (t reg)"] Cons.prems
    by (simp add: bindE_run s t pureE_def)
qed

lemma logFailures_outcome: "outcome (logFailures i scripts rs reg) = Inr ()"
  by (induction i scripts rs arbitrary: reg rule: logFailures.induct)
     (simp_all add: emit_seqE_run pureE_def)

lemma injectAllSettled_outcome:
  "outcome (injectAllSettled flags validate hs scripts reg)
     = Inr (map (\<lambda>(i, script). settledOf (outcome (injectScript flags validate (hs i) script reg0)))
                (enumerate 0 scripts))"
proof -
  have "\<forall>t \<in> set (map (\<lambda>(i, script). injectScript flags validate (hs i) script)
                     (enumerate 0 scripts)). outcomeIndep t"
    by (auto simp: indep_injectScript)
  from allSettled_outcome [OF this, of reg reg0]
  show ?thesis by (simp add: injectAllSettled_def comp_def case_prod_unfold)
qed


lemma originOK_inTier_Top: "originOK (inTier t) (Top t)" by (simp add: originOK_def)
lemma originOK_inTier_Inner: "originOK (inTier t) (Inner t)" by (simp add: originOK_def)

lemma Compliant_inTier:
  "org = Top t \<or> org = Inner t \<Longrightarrow>
   list_all (inTier t) (events (CompliantInjectionStrategy_inject flags validate h org script reg))"
  using emits_Compliant [of "inTier t" org flags validate h script]
  by (auto simp: emits_def originOK_def)

lemma Compatibility_inTier:
  "list_all (inTier t) (events (CompatibilityInjectionStrategy_inject flags validate h t script reg))"
  using emits_Compatibility [of "inTier t" t flags validate h script]
  by (simp add: emits_def originOK_def)

lemma injectScript_nonstrict_run:
  assumes "\<not> flags StoreCompliant"
  shows "injectScript flags validate h script reg =
     (let body = catchE
              (if flags (Feature LegacyInjection) then
                 CompatibilityInjectionStrategy_inject flags validate h Primary (annotated h script)
               else
                 catchE (CompliantInjectionStrategy_inject flags validate h (Top Primary)
                           (annotated h script))
                        (\<lambda>compliantError.
                           CompatibilityInjectionStrategy_inject flags validate h Fallback
                             (annotated h script)))
              (\<lambda>error.
                 if \<not> flags (Feature LegacyInjection) \<and> flags (Feature EvalFallback)
                 then catchE (CompatibilityInjectionStrategy_inject flags validate h Emergency
                                (annotated h script))
                             (\<lambda>fallbackError. throwE fallbackError)
                 else throwE error) reg
      in (outcome body, registry body, selectionEvents h script @ events body))"
  using assms unfolding annotated_def selectionEvents_def
  by (simp add: injectScript_def hostRead_bindE_run emit_seqE_run Let_def pureE_seqE)

lemma originOK_noEngineValidation_Top: "originOK (\<lambda>e. \<not> isEngineValidation e) (Top t)"
  by (simp add: originOK_def)
lemma originOK_noEngineValidation_Inner: "originOK (\<lambda>e. \<not> isEngineValidation e) (Inner t)"
  by (simp add: originOK_def)

lemma emits_execution_noEngineValidation:
  "emits (\<lambda>e. \<not> isEngineValidation e)
     (catchE
        (if flags StoreCompliant then
           CompliantInjectionStrategy_inject flags validate h (Top Primary) script
         else if flags (Feature LegacyInjection) then
           CompatibilityInjectionStrategy_inject flags validate h Primary script
         else
           catchE (CompliantInjectionStrategy_inject flags validate h (Top Primary) script)
                  (\<lambda>compliantError.
                     CompatibilityInjectionStrategy_inject flags validate h Fallback script))
        (\<lambda>error.
           if \<not> flags StoreCompliant \<and> \<not> flags (Feature LegacyInjection)
              \<and> flags (Feature EvalFallback)
           then catchE (CompatibilityInjectionStrategy_inject flags validate h Emergency script)
                       (\<lambda>fallbackError. throwE fallbackError)
           else throwE error))"
  by (intro emits_intros)
     (auto intro!: emits_intros emits_Compliant emits_Compatibility
        originOK_noEngineValidation_Top originOK_noEngineValidation_Inner)

lemma injectScript_events_split:
  "events (injectScript flags validate h script reg)
     = selectionEvents h script
       @ (if flags StoreCompliant
          then ContentValidated Engine (safe (validate (annotated h script)))
               # (if safe (validate (annotated h script))
                  then events (catchE
                    (if flags StoreCompliant then
                       CompliantInjectionStrategy_inject flags validate h (Top Primary) (annotated h script)
                     else if flags (Feature LegacyInjection) then
                       CompatibilityInjectionStrategy_inject flags validate h Primary (annotated h script)
                     else
                       catchE (CompliantInjectionStrategy_inject flags validate h (Top Primary) (annotated h script))
                              (\<lambda>compliantError.
                                 CompatibilityInjectionStrategy_inject flags validate h Fallback (annotated h script)))
                    (\<lambda>error.
                       if \<not> flags StoreCompliant \<and> \<not> flags (Feature LegacyInjection)
                          \<and> flags (Feature EvalFallback)
                       then catchE (CompatibilityInjectionStrategy_inject flags validate h Emergency (annotated h script))
                                   (\<lambda>fallbackError. throwE fallbackError)
                       else throwE error) reg)
                  else [])
          else events (catchE
                    (if flags StoreCompliant then
                       CompliantInjectionStrategy_inject flags validate h (Top Primary) (annotated h script)
                     else if flags (Feature LegacyInjection) then
                       CompatibilityInjectionStrategy_inject flags validate h Primary (annotated h script)
                     else
                       catchE (CompliantInjectionStrategy_inject flags validate h (Top Primary) (annotated h script))
                              (\<lambda>compliantError.
                                 CompatibilityInjectionStrategy_inject flags validate h Fallback (annotated h script)))
                    (\<lambda>error.
                       if \<not> flags StoreCompliant \<and> \<not> flags (Feature LegacyInjection)
                          \<and> flags (Feature EvalFallback)
                       then catchE (CompatibilityInjectionStrategy_inject flags validate h Emergency (annotated h script))
                                   (\<lambda>fallbackError. throwE fallbackError)
                       else throwE error) reg))"
  unfolding annotated_def selectionEvents_def
  by (simp add: injectScript_def hostRead_bindE_run emit_seqE_run Let_def pureE_seqE
        throwE_seqE seqE_assoc seqE_if throwE_run)

lemma concat_map_upt_Suc:
  "concat (map f [0..<Suc n]) = f 0 @ concat (map (\<lambda>k. f (Suc k)) [0..<n])"
proof -
  have "[0..<Suc n] = 0 # map Suc [0..<n]"
    by (simp add: upt_conv_Cons map_Suc_upt del: upt_Suc)
  then show ?thesis by (simp add: comp_def del: upt_Suc)
qed

lemma logFailures_events:
  "length rs = length scripts \<Longrightarrow>
   events (logFailures i scripts rs reg)
     = concat (map (\<lambda>k. failureEntry (i + k) (scripts ! k) (rs ! k)) [0..<length scripts])"
  by (induction i scripts rs arbitrary: reg rule: logFailures.induct)
     (simp_all add: emit_seqE_run concat_map_upt_Suc pureE_def del: upt_Suc)

lemma settle_run: "settle t reg = (Inr (settledOf (outcome (t reg))), registry (t reg), events (t reg))"
  by (cases "t reg") (simp add: settle_def)

lemma allSettled_returns: "\<exists>rs. outcome (allSettled ts reg) = Inr rs"
proof (induction ts arbitrary: reg)
  case Nil then show ?case by (simp add: pureE_def)
next
  case (Cons t ts)
  obtain rs where "outcome (allSettled ts (registry (t reg))) = Inr rs"
    using Cons.IH by blast
  then show ?case by (simp add: bindE_run settle_run pureE_def)
qed

lemma allSettled_events:
  "\<exists>regs. length regs = length ts
     \<and> events (allSettled ts reg) = concat (map (\<lambda>k. events ((ts ! k) (regs ! k))) [0..<length ts])"
proof (induction ts arbitrary: reg)
  case Nil
  then show ?case by (simp add: pureE_def)
next
  case (Cons t ts)
  from Cons.IH [of "registry (t reg)"] obtain regs where
      r: "length regs = length ts"
         "events (allSettled ts (registry (t reg)))
            = concat (map (\<lambda>k. events ((ts ! k) (regs ! k))) [0..<length ts])"
    by blast
  obtain rs where rs: "outcome (allSettled ts (registry (t reg))) = Inr rs"
    using allSettled_returns by blast
  have "events (allSettled (t # ts) reg)
          = events (t reg) @ concat (map (\<lambda>k. events ((ts ! k) (regs ! k))) [0..<length ts])"
    by (simp add: bindE_run settle_run rs r(2) pureE_def)
  then have "length (reg # regs) = length (t # ts)
     \<and> events (allSettled (t # ts) reg)
        = concat (map (\<lambda>k. events (((t # ts) ! k) ((reg # regs) ! k))) [0..<length (t # ts)])"
    using r(1) by (simp add: concat_map_upt_Suc del: upt_Suc)
  then show ?case by blast
qed

lemma injectAllSettled_events:
  "\<exists>regs. length regs = length scripts
     \<and> events (injectAllSettled flags validate hs scripts reg)
        = concat (map (\<lambda>i. events (injectScript flags validate (hs i) (scripts ! i) (regs ! i)))
                      [0..<length scripts])"
proof -
  define ts where "ts = map (\<lambda>(i, script). injectScript flags validate (hs i) script)
                            (enumerate 0 scripts)"
  have lts: "length ts = length scripts" by (simp add: ts_def)
  have nth: "\<And>k. k < length scripts \<Longrightarrow> ts ! k = injectScript flags validate (hs k) (scripts ! k)"
    by (simp add: ts_def nth_enumerate_eq)
  obtain regs where r: "length regs = length ts"
     "events (allSettled ts reg) = concat (map (\<lambda>k. events ((ts ! k) (regs ! k))) [0..<length ts])"
    using allSettled_events [of ts reg] by blast
  have meq: "map (\<lambda>k. events ((ts ! k) (regs ! k))) [0..<length scripts]
      = map (\<lambda>i. events (injectScript flags validate (hs i) (scripts ! i) (regs ! i))) [0..<length scripts]"
    by (rule map_cong [OF refl]) (simp add: nth)
  have "events (allSettled ts reg)
      = concat (map (\<lambda>k. events ((ts ! k) (regs ! k))) [0..<length scripts])"
    using r(2) lts by simp
  also have "\<dots> = concat (map (\<lambda>i. events (injectScript flags validate (hs i) (scripts ! i) (regs ! i)))
                      [0..<length scripts])"
    by (simp only: meq)
  finally have "events (allSettled ts reg)
      = concat (map (\<lambda>i. events (injectScript flags validate (hs i) (scripts ! i) (regs ! i)))
                      [0..<length scripts])" .
  then show ?thesis
    using r(1) lts unfolding injectAllSettled_def ts_def by auto
qed

lemma failureReport_member:
  "BatchItemFailed i sid e \<in> set (failureReport scripts results)
     \<longleftrightarrow> i < length scripts \<and> sid = script_id (scripts ! i) \<and> results ! i = Rejected e"
proof -
  have "\<And>k. BatchItemFailed i sid e \<in> set (failureEntry k (scripts ! k) (results ! k))
          \<longleftrightarrow> k = i \<and> sid = script_id (scripts ! k) \<and> results ! k = Rejected e"
    by (case_tac "results ! k") auto
  then show ?thesis by (auto simp: failureReport_def)
qed

lemmas run_defs = bindE_def seqE_def catchE_def emit_def pureE_def throwE_def hostRead_def
  hostCall_def getRegistry_def modifyRegistry_def

lemmas example_defs = hybridEmergencyFlags_def allSafe_def evalUnsafe_def deadHost_def goodHost_def
  mkScript_def scriptNamed_def getFeatureFlags_def compat_mode_def store_mode_def isFeatureEnabled_def

lemmas strategy_defs = CompliantInjectionStrategy_inject_def CompatibilityInjectionStrategy_inject_def
  injectWithLegacyMethods_def injectViaScripting_def injectViaUserScripts_def
  registerScriptCompliant_def unregisterScript_def injectAPIBridge_def
  needsIsolation_def getWorldString_def list_or_def str_or_def attachStrategy_def

section \<open>The engine: theorems\<close>

text \<open>
  C1. In strict mode (\<open>storeCompliant\<close> on), when the validation the engine performs on
  the script reports unsafe, \<open>injectScript\<close> ends by throwing the validation error: the
  call's whole trace is the selector's availability read, the selection, the annotation
  of the script and the failed validation. No strategy is invoked, no browser call is
  made on behalf of one, no fallback tier is tried, and the registry is unchanged.
\<close>

theorem strict_unsafe_rejected_without_injection:
  assumes "flags StoreCompliant"
      and "\<not> safe (validate (attachStrategy (selectStrategy (h Engine SelectorCanUse) script) script))"
  shows "injectScript flags validate h script reg =
           (Inl (NonCompliantScript
                  (issues (validate (attachStrategy (selectStrategy (h Engine SelectorCanUse) script) script)))),
            reg,
            [Host Engine SelectorCanUse (h Engine SelectorCanUse),
             StrategySelected (selectStrategy (h Engine SelectorCanUse) script),
             StrategyAttached (script_id script) (selectStrategy (h Engine SelectorCanUse) script),
             ContentValidated Engine False])
       \<and> list_all (\<lambda>e. \<not> isStrategyRun e) (events (injectScript flags validate h script reg))"
  using assms by (simp add: injectScript_def run_defs Let_def)

theorem strict_unsafe_rejected_without_injection_witness:
  "injectScript (getFeatureFlags store_mode) evalUnsafe goodHost (mkScript None None None) {}
     = (Inl (NonCompliantScript [''eval() usage detected'']), {},
        [Host Engine SelectorCanUse True,
         StrategySelected (selectStrategy True (mkScript None None None)),
         StrategyAttached ''s1'' (selectStrategy True (mkScript None None None)),
         ContentValidated Engine False])"
  using strict_unsafe_rejected_without_injection
    [where flags = "getFeatureFlags store_mode" and validate = evalUnsafe and h = goodHost
      and script = "mkScript None None None" and reg = "{}"]
  by (simp add: getFeatureFlags_def store_mode_def evalUnsafe_def goodHost_def mkScript_def)

text \<open>
  C2. Outside strict mode the fallback chain of an inject call runs its tiers in a fixed
  order, each at most once, and a later tier is started only when the tier before it has
  failed. In hybrid mode (\<open>legacyInjection\<close> off) the trace of the call is the selection,
  then the whole run of the compliant tier; exactly when that run threw, the run of the
  permissive tier follows; exactly when that one threw too and \<open>evalFallback\<close> is on, the
  run of the emergency tier follows; nothing comes after. The call succeeds as soon as one
  tier succeeds and otherwise throws the error of the last tier that ran. In permissive
  mode (\<open>legacyInjection\<close> on) the trace is the selection and one run of the
  compatibility strategy, and the outcome is that run's. Every event of a tier's run
  belongs to that tier, so no tier is entered a second time, and the engine invokes one
  strategy per tier. A tier is an attempt of the engine: the permissive and the emergency
  tier are both runs of the compatibility strategy, whose own first step is to delegate
  to the compliant strategy.
\<close>

theorem fallback_chain_order:
  assumes "\<not> flags StoreCompliant"
  shows
  "(\<not> flags (Feature LegacyInjection) \<longrightarrow>
      events (injectScript flags validate h script reg)
        = selectionEvents h script
          @ events (compliantTier flags validate h script reg)
          @ (if isl (outcome (compliantTier flags validate h script reg))
             then events (permissiveTier flags validate h script reg)
                  @ (if isl (outcome (permissiveTier flags validate h script reg))
                        \<and> flags (Feature EvalFallback)
                     then events (emergencyTier flags validate h script reg)
                     else [])
             else [])
    \<and> outcome (injectScript flags validate h script reg)
        = (if \<not> isl (outcome (compliantTier flags validate h script reg)) then Inr ()
           else if \<not> isl (outcome (permissiveTier flags validate h script reg)) then Inr ()
           else if flags (Feature EvalFallback)
             then outcome (emergencyTier flags validate h script reg)
           else outcome (permissiveTier flags validate h script reg))
    \<and> engineCalls (events (injectScript flags validate h script reg))
        = Inject Compliant (Top Primary)
          # (if isl (outcome (compliantTier flags validate h script reg))
             then Inject Compatibility (Top Fallback)
                  # (if isl (outcome (permissiveTier flags validate h script reg))
                        \<and> flags (Feature EvalFallback)
                     then [Inject Compatibility (Top Emergency)]
                     else [])
             else []))
 \<and> (flags (Feature LegacyInjection) \<longrightarrow>
      events (injectScript flags validate h script reg)
        = selectionEvents h script @ events (permissiveOnly flags validate h script reg)
    \<and> outcome (injectScript flags validate h script reg)
        = outcome (permissiveOnly flags validate h script reg)
    \<and> engineCalls (events (injectScript flags validate h script reg))
        = [Inject Compatibility (Top Primary)])
 \<and> list_all (inTier Primary) (events (compliantTier flags validate h script reg))
 \<and> list_all (inTier Fallback) (events (permissiveTier flags validate h script reg))
 \<and> list_all (inTier Emergency) (events (emergencyTier flags validate h script reg))
 \<and> list_all (inTier Primary) (events (permissiveOnly flags validate h script reg))
 \<and> engineCalls (events (compliantTier flags validate h script reg))
      = [Inject Compliant (Top Primary)]
 \<and> engineCalls (events (permissiveTier flags validate h script reg))
      = [Inject Compatibility (Top Fallback)]
 \<and> engineCalls (events (emergencyTier flags validate h script reg))
      = [Inject Compatibility (Top Emergency)]"
proof -
  let ?P = "compliantTier flags validate h script reg"
  let ?F = "permissiveTier flags validate h script reg"
  let ?E = "emergencyTier flags validate h script reg"
  let ?L = "permissiveOnly flags validate h script reg"
  have sel: "engineCalls (selectionEvents h script) = []"
    by (simp add: engineCalls_def selectionEvents_def)
  have cP: "engineCalls (events ?P) = [Inject Compliant (Top Primary)]"
    by (simp add: compliantTier_def engineCalls_Compliant_Top)
  have cF: "engineCalls (events ?F) = [Inject Compatibility (Top Fallback)]"
    by (simp add: permissiveTier_def engineCalls_Compatibility)
  have cE: "engineCalls (events ?E) = [Inject Compatibility (Top Emergency)]"
    by (simp add: emergencyTier_def engineCalls_Compatibility)
  have cL: "engineCalls (events ?L) = [Inject Compatibility (Top Primary)]"
    by (simp add: permissiveOnly_def engineCalls_Compatibility)
  have tP: "list_all (inTier Primary) (events ?P)"
    by (simp add: compliantTier_def Compliant_inTier)
  have tF: "list_all (inTier Fallback) (events ?F)"
    by (simp add: permissiveTier_def Compatibility_inTier)
  have tE: "list_all (inTier Emergency) (events ?E)"
    by (simp add: emergencyTier_def Compatibility_inTier)
  have tL: "list_all (inTier Primary) (events ?L)"
    by (simp add: permissiveOnly_def Compatibility_inTier)
  have hybrid_ev: "\<not> flags (Feature LegacyInjection) \<Longrightarrow>
      events (injectScript flags validate h script reg)
        = selectionEvents h script @ events ?P
          @ (if isl (outcome ?P)
             then events ?F @ (if isl (outcome ?F) \<and> flags (Feature EvalFallback) then events ?E else [])
             else [])"
    using assms by (simp add: injectScript_nonstrict_run Let_def catchE_run
          compliantTier_def permissiveTier_def emergencyTier_def split: sum.splits)
  have hybrid_out: "\<not> flags (Feature LegacyInjection) \<Longrightarrow>
      outcome (injectScript flags validate h script reg)
        = (if \<not> isl (outcome ?P) then Inr ()
           else if \<not> isl (outcome ?F) then Inr ()
           else if flags (Feature EvalFallback) then outcome ?E
           else outcome ?F)"
    using assms by (auto simp add: injectScript_nonstrict_run Let_def catchE_run throwE_run
          compliantTier_def permissiveTier_def emergencyTier_def split: sum.splits)
  have legacy_ev: "flags (Feature LegacyInjection) \<Longrightarrow>
      events (injectScript flags validate h script reg) = selectionEvents h script @ events ?L"
    using assms by (simp add: injectScript_nonstrict_run Let_def catchE_run permissiveOnly_def
          split: sum.splits)
  have legacy_out: "flags (Feature LegacyInjection) \<Longrightarrow>
      outcome (injectScript flags validate h script reg) = outcome ?L"
    using assms by (simp add: injectScript_nonstrict_run Let_def catchE_run throwE_run
          permissiveOnly_def split: sum.splits)
  have hybrid_calls: "\<not> flags (Feature LegacyInjection) \<Longrightarrow>
      engineCalls (events (injectScript flags validate h script reg))
        = Inject Compliant (Top Primary)
          # (if isl (outcome ?P)
             then Inject Compatibility (Top Fallback)
                  # (if isl (outcome ?F) \<and> flags (Feature EvalFallback)
                     then [Inject Compatibility (Top Emergency)] else [])
             else [])"
    by (simp add: hybrid_ev engineCalls_append sel cP cF cE engineCalls_def [of "[]"])
  have legacy_calls: "flags (Feature LegacyInjection) \<Longrightarrow>
      engineCalls (events (injectScript flags validate h script reg))
        = [Inject Compatibility (Top Primary)]"
    by (simp add: legacy_ev engineCalls_append sel cL)
  show ?thesis
    using hybrid_ev hybrid_out hybrid_calls legacy_ev legacy_out legacy_calls tP tF tE tL cP cF cE
    by simp
qed

theorem fallback_chain_order_witness:
  "engineCalls (events (injectScript hybridEmergencyFlags allSafe deadHost (mkScript None None None) {}))
     = [Inject Compliant (Top Primary), Inject Compatibility (Top Fallback),
        Inject Compatibility (Top Emergency)]
   \<and> outcome (injectScript hybridEmergencyFlags allSafe deadHost (mkScript None None None) {})
     = Inl (HostError (Top Emergency) (ExecuteScript EnhancedExecutor MAIN))
   \<and> engineCalls (events (injectScript hybridEmergencyFlags allSafe (\<lambda>org op. org \<noteq> Top Primary)
        (mkScript None None None) {}))
     = [Inject Compliant (Top Primary), Inject Compatibility (Top Fallback)]
   \<and> outcome (injectScript hybridEmergencyFlags allSafe (\<lambda>org op. org \<noteq> Top Primary)
        (mkScript None None None) {})
     = Inr ()
   \<and> engineCalls (events (injectScript hybridEmergencyFlags allSafe goodHost (mkScript None None None) {}))
     = [Inject Compliant (Top Primary)]
   \<and> outcome (injectScript hybridEmergencyFlags allSafe goodHost (mkScript None None None) {})
     = Inr ()
   \<and> engineCalls (events (injectScript (getFeatureFlags compat_mode) allSafe deadHost
        (mkScript None None None) {}))
     = [Inject Compatibility (Top Primary)]"
proof -
  let ?s = "mkScript None None None"
  let ?mid = "\<lambda>(org :: origin) (op :: host_op). org \<noteq> Top Primary"
  have h: "\<not> hybridEmergencyFlags StoreCompliant" "\<not> hybridEmergencyFlags (Feature LegacyInjection)"
          "hybridEmergencyFlags (Feature EvalFallback)"
    by (simp_all add: hybridEmergencyFlags_def)
  have c: "\<not> getFeatureFlags compat_mode StoreCompliant"
          "getFeatureFlags compat_mode (Feature LegacyInjection)"
    by (simp_all add: getFeatureFlags_def compat_mode_def isFeatureEnabled_def)
  have d1: "outcome (compliantTier hybridEmergencyFlags allSafe deadHost ?s {})
              = Inl (HostError (Top Primary) (ExecuteScript CompliantExecutor MAIN))"
    by (simp add: compliantTier_def annotated_def run_defs Let_def example_defs strategy_defs)
  have d2: "outcome (permissiveTier hybridEmergencyFlags allSafe deadHost ?s {})
              = Inl (HostError (Top Fallback) (ExecuteScript EnhancedExecutor MAIN))"
    by (simp add: permissiveTier_def annotated_def run_defs Let_def example_defs strategy_defs)
  have d3: "outcome (emergencyTier hybridEmergencyFlags allSafe deadHost ?s {})
              = Inl (HostError (Top Emergency) (ExecuteScript EnhancedExecutor MAIN))"
    by (simp add: emergencyTier_def annotated_def run_defs Let_def example_defs strategy_defs)
  have m1: "outcome (compliantTier hybridEmergencyFlags allSafe ?mid ?s {})
              = Inl (HostError (Top Primary) (ExecuteScript CompliantExecutor MAIN))"
    by (simp add: compliantTier_def annotated_def run_defs Let_def example_defs strategy_defs)
  have m2: "outcome (permissiveTier hybridEmergencyFlags allSafe ?mid ?s {}) = Inr ()"
    by (simp add: permissiveTier_def annotated_def run_defs Let_def example_defs strategy_defs)
  have g1: "outcome (compliantTier hybridEmergencyFlags allSafe goodHost ?s {}) = Inr ()"
    by (simp add: compliantTier_def annotated_def run_defs Let_def example_defs strategy_defs)
  show ?thesis
    using fallback_chain_order [where flags = hybridEmergencyFlags and validate = allSafe and h = deadHost
        and script = ?s and reg = "{}"]
      fallback_chain_order [where flags = hybridEmergencyFlags and validate = allSafe and h = ?mid
        and script = ?s and reg = "{}"]
      fallback_chain_order [where flags = hybridEmergencyFlags and validate = allSafe and h = goodHost
        and script = ?s and reg = "{}"]
      fallback_chain_order [where flags = "getFeatureFlags compat_mode" and validate = allSafe and h = deadHost
        and script = ?s and reg = "{}"]
      h c d1 d2 d3 m1 m2 g1
    by auto
qed

text \<open>
  C6 (as stated, refuted). Strict mode, a script the validator rejects: the selector has
  run and its strategy has been attached to the script before the validation takes
  place and the call is rejected.
\<close>

theorem strict_selects_before_validation_counterexample:
  "injectScript (getFeatureFlags store_mode) evalUnsafe goodHost (mkScript None None None) {}
     = (Inl (NonCompliantScript [''eval() usage detected'']), {},
        [Host Engine SelectorCanUse True,
         StrategySelected \<lparr> strategy_method = ContentScript, world = MAIN, timing = Document_end,
             reason = ''Simple script without special requirements, using direct injection'' \<rparr>,
         StrategyAttached ''s1'' \<lparr> strategy_method = ContentScript, world = MAIN,
             timing = Document_end,
             reason = ''Simple script without special requirements, using direct injection'' \<rparr>,
         ContentValidated Engine False])"
  by (simp add: injectScript_def run_defs Let_def getFeatureFlags_def store_mode_def evalUnsafe_def
        goodHost_def selectStrategy_def mkScript_def list_or_def str_or_def convertRunAtTiming_def)

text \<open>
  C6 (amended). Every inject call begins with the selection: the selector is invoked and
  its result attached to the script before anything else happens. The engine's
  validation comes after the selection and only in strict mode: in strict mode it is
  the very next step and occurs once; in every other mode the call contains no
  validation by the engine at all. A script that fails it is rejected with the strategy
  already selected and attached, and nothing after the validation takes place. (The
  compliant strategy validates the script once more whenever it runs, in every mode;
  that check is part of the strategy's run and comes later still.)
\<close>

theorem selection_precedes_validation:
  "\<exists>rest. events (injectScript flags validate h script reg) = selectionEvents h script @ rest
     \<and> (flags StoreCompliant \<longrightarrow>
          (\<exists>rest'. rest = ContentValidated Engine (safe (validate (annotated h script))) # rest'
             \<and> list_all (\<lambda>e. \<not> isEngineValidation e) rest'))
     \<and> (\<not> flags StoreCompliant \<longrightarrow> list_all (\<lambda>e. \<not> isEngineValidation e) rest)
     \<and> (flags StoreCompliant \<and> \<not> safe (validate (annotated h script))
        \<longrightarrow> rest = [ContentValidated Engine False]
          \<and> outcome (injectScript flags validate h script reg)
              = Inl (NonCompliantScript (issues (validate (annotated h script)))))"
proof -
  have out: "flags StoreCompliant \<and> \<not> safe (validate (annotated h script)) \<Longrightarrow>
      outcome (injectScript flags validate h script reg)
              = Inl (NonCompliantScript (issues (validate (annotated h script))))"
    unfolding annotated_def
    by (simp add: injectScript_def hostRead_bindE_run emit_seqE_run Let_def pureE_seqE
        throwE_seqE seqE_assoc seqE_if throwE_run)
  show ?thesis
    using emits_execution_noEngineValidation [of flags validate h "annotated h script"] out
    by (subst injectScript_events_split) (auto simp: emits_def)
qed

theorem selection_precedes_validation_witness:
  "(\<exists>rest. events (injectScript (getFeatureFlags store_mode) evalUnsafe deadHost
                    (mkScript None None None) {})
              = selectionEvents deadHost (mkScript None None None) @ rest
          \<and> rest = [ContentValidated Engine False])
   \<and> outcome (injectScript (getFeatureFlags store_mode) evalUnsafe deadHost
                    (mkScript None None None) {})
       = Inl (NonCompliantScript [''eval() usage detected''])
   \<and> (\<exists>rest. events (injectScript (getFeatureFlags store_mode) allSafe goodHost
                    (mkScript None None None) {})
              = selectionEvents goodHost (mkScript None None None) @ ContentValidated Engine True # rest
          \<and> list_all (\<lambda>e. \<not> isEngineValidation e) rest)
   \<and> (\<exists>rest. events (injectScript (getFeatureFlags compat_mode) evalUnsafe goodHost
                    (mkScript None None None) {})
              = selectionEvents goodHost (mkScript None None None) @ rest
          \<and> list_all (\<lambda>e. \<not> isEngineValidation e) rest)"
  using selection_precedes_validation
      [where flags = "getFeatureFlags store_mode" and validate = evalUnsafe and h = deadHost
        and script = "mkScript None None None" and reg = "{}"]
    selection_precedes_validation
      [where flags = "getFeatureFlags store_mode" and validate = allSafe and h = goodHost
        and script = "mkScript None None None" and reg = "{}"]
    selection_precedes_validation
      [where flags = "getFeatureFlags compat_mode" and validate = evalUnsafe and h = goodHost
        and script = "mkScript None None None" and reg = "{}"]
  by (auto simp: getFeatureFlags_def store_mode_def compat_mode_def evalUnsafe_def allSafe_def)

text \<open>
  C7. \<open>injectMultipleScripts\<close> always completes without throwing. Its trace is the trace
  of one inject call per script, in batch order and none left out, followed by the
  summary and the failure report. The settled results are one per script; the result at
  position \<open>i\<close> is the outcome of \<open>injectScript\<close> on script \<open>i\<close> against that task's browser,
  whatever the other items are and did and whatever the registry holds when the task
  starts. The summary counts every item once, as fulfilled or as rejected, and the
  report holds an entry for position \<open>i\<close>, with the script's id and the error, exactly
  when item \<open>i\<close> was rejected with that error.
\<close>

theorem batch_reports_every_item:
  "\<exists>results regs.
      outcome (injectMultipleScripts flags validate hs scripts reg) = Inr ()
    \<and> length results = length scripts \<and> length regs = length scripts
    \<and> (\<forall>i < length scripts. \<forall>reg0.
          results ! i = settledOf (outcome (injectScript flags validate (hs i) (scripts ! i) reg0)))
    \<and> events (injectMultipleScripts flags validate hs scripts reg)
        = concat (map (\<lambda>i. events (injectScript flags validate (hs i) (scripts ! i) (regs ! i)))
                      [0..<length scripts])
          @ BatchCompleted (length scripts)
              (length (filter (\<lambda>r. r = Fulfilled) results))
              (length (filter (\<lambda>r. r \<noteq> Fulfilled) results))
          # failureReport scripts results
    \<and> (\<forall>i sid e. BatchItemFailed i sid e \<in> set (failureReport scripts results)
          \<longleftrightarrow> i < length scripts \<and> sid = script_id (scripts ! i) \<and> results ! i = Rejected e)
    \<and> length (filter (\<lambda>r. r = Fulfilled) results)
        + length (filter (\<lambda>r. r \<noteq> Fulfilled) results) = length scripts"
proof -
  let ?rs = "map (\<lambda>(i, script). settledOf (outcome (injectScript flags validate (hs i) script reg)))
                (enumerate 0 scripts)"
  have o: "outcome (injectAllSettled flags validate hs scripts reg) = Inr ?rs"
    by (rule injectAllSettled_outcome)
  have len: "length ?rs = length scripts" by simp
  have nth: "\<forall>i < length scripts. \<forall>reg0.
      ?rs ! i = settledOf (outcome (injectScript flags validate (hs i) (scripts ! i) reg0))"
  proof (intro allI impI)
    fix i reg0 assume i: "i < length scripts"
    have "outcome (injectScript flags validate (hs i) (scripts ! i) reg)
        = outcome (injectScript flags validate (hs i) (scripts ! i) reg0)"
      using indep_injectScript [of flags validate "hs i" "scripts ! i"]
      unfolding outcomeIndep_def by blast
    then show "?rs ! i = settledOf (outcome (injectScript flags validate (hs i) (scripts ! i) reg0))"
      using i by (simp add: nth_enumerate_eq)
  qed
  obtain regs where regs: "length regs = length scripts"
     "events (injectAllSettled flags validate hs scripts reg)
        = concat (map (\<lambda>i. events (injectScript flags validate (hs i) (scripts ! i) (regs ! i)))
                      [0..<length scripts])"
    using injectAllSettled_events by blast
  have fin: "outcome (injectMultipleScripts flags validate hs scripts reg) = Inr ()"
    by (simp add: injectMultipleScripts_def bindE_run o Let_def emit_seqE_run logFailures_outcome)
  have ev: "events (injectMultipleScripts flags validate hs scripts reg)
        = concat (map (\<lambda>i. events (injectScript flags validate (hs i) (scripts ! i) (regs ! i)))
                      [0..<length scripts])
          @ BatchCompleted (length scripts)
              (length (filter (\<lambda>r. r = Fulfilled) ?rs))
              (length (filter (\<lambda>r. r \<noteq> Fulfilled) ?rs))
          # failureReport scripts ?rs"
    using logFailures_events [of ?rs scripts 0] len
    by (simp add: injectMultipleScripts_def bindE_run o Let_def emit_seqE_run regs(2)
          failureReport_def)
  have sum: "length (filter (\<lambda>r. r = Fulfilled) ?rs)
            + length (filter (\<lambda>r. r \<noteq> Fulfilled) ?rs) = length scripts"
    using sum_length_filter_compl [of "\<lambda>r. r = Fulfilled" ?rs] by simp
  show ?thesis
    using fin len regs(1) nth ev sum failureReport_member [of _ _ _ scripts ?rs] by blast
qed

theorem batch_reports_every_item_witness:
  "outcome (injectMultipleScripts (getFeatureFlags compat_mode) allSafe
              (\<lambda>i. if i = 1 then deadHost else goodHost)
              [scriptNamed ''a'', scriptNamed ''b'', scriptNamed ''c''] {})
     = Inr ()
   \<and> (\<exists>items. events (injectMultipleScripts (getFeatureFlags compat_mode) allSafe
              (\<lambda>i. if i = 1 then deadHost else goodHost)
              [scriptNamed ''a'', scriptNamed ''b'', scriptNamed ''c''] {})
         = items @ [BatchCompleted 3 2 1,
                    BatchItemFailed 1 ''b''
                      (HostError (Top Primary) (ExecuteScript EnhancedExecutor MAIN))])"
proof -
  let ?fl = "getFeatureFlags compat_mode"
  let ?hs = "\<lambda>i::nat. if i = 1 then deadHost else goodHost"
  let ?ss = "[scriptNamed ''a'', scriptNamed ''b'', scriptNamed ''c'']"
  have good: "\<And>n. outcome (injectScript ?fl allSafe goodHost (scriptNamed n) {}) = Inr ()"
    by (simp add: injectScript_def run_defs Let_def example_defs strategy_defs)
  have dead: "outcome (injectScript ?fl allSafe deadHost (scriptNamed ''b'') {})
                = Inl (HostError (Top Primary) (ExecuteScript EnhancedExecutor MAIN))"
    by (simp add: injectScript_def run_defs Let_def example_defs strategy_defs)
  from batch_reports_every_item [of ?fl allSafe ?hs ?ss "{}"]
  obtain results regs where
      fin: "outcome (injectMultipleScripts ?fl allSafe ?hs ?ss {}) = Inr ()"
    and len: "length results = length ?ss"
    and nth: "\<forall>i < length ?ss. \<forall>reg0.
                results ! i = settledOf (outcome (injectScript ?fl allSafe (?hs i) (?ss ! i) reg0))"
    and ev: "events (injectMultipleScripts ?fl allSafe ?hs ?ss {})
        = concat (map (\<lambda>i. events (injectScript ?fl allSafe (?hs i) (?ss ! i) (regs ! i)))
                      [0..<length ?ss])
          @ BatchCompleted (length ?ss)
              (length (filter (\<lambda>r. r = Fulfilled) results))
              (length (filter (\<lambda>r. r \<noteq> Fulfilled) results))
          # failureReport ?ss results"
    by blast
  have r0: "results ! 0 = Fulfilled" using nth [rule_format, of 0 "{}"] good by simp
  have r1: "results ! 1 = Rejected (HostError (Top Primary) (ExecuteScript EnhancedExecutor MAIN))"
    using nth [rule_format, of 1 "{}"] dead by simp
  have r2: "results ! 2 = Fulfilled" using nth [rule_format, of 2 "{}"] good by simp
  have rs: "results = [Fulfilled,
                       Rejected (HostError (Top Primary) (ExecuteScript EnhancedExecutor MAIN)),
                       Fulfilled]"
    using len r0 r1 r2 by (auto simp: length_Suc_conv numeral_3_eq_3 numeral_2_eq_2)
  have fr: "failureReport ?ss results
      = [BatchItemFailed 1 ''b'' (HostError (Top Primary) (ExecuteScript EnhancedExecutor MAIN))]"
    by (simp add: failureReport_def rs upt_rec scriptNamed_def)
  have "events (injectMultipleScripts ?fl allSafe ?hs ?ss {})
        = concat (map (\<lambda>i. events (injectScript ?fl allSafe (?hs i) (?ss ! i) (regs ! i)))
                      [0..<length ?ss])
          @ [BatchCompleted 3 2 1,
             BatchItemFailed 1 ''b'' (HostError (Top Primary) (ExecuteScript EnhancedExecutor MAIN))]"
    unfolding ev fr by (simp add: rs)
  then show ?thesis using fin by blast
qed

text \<open>
  C9. Under either defined build mode, whatever the flag lookup answers for
  \<open>storeCompliant\<close>, no inject call produces an event of the emergency tier: the store
  mode has \<open>evalFallback\<close> off and the compat mode has \<open>legacyInjection\<close> on, so the guard
  of the emergency branch is false.
\<close>

theorem emergency_unreachable_in_build_modes:
  assumes "mode \<in> snd ` set BUILD_MODES"
      and "\<forall>f. flags (Feature f) = isFeatureEnabled mode f"
  shows "list_all (\<lambda>e. \<not> inEmergency e) (events (injectScript flags validate h script reg))"
proof -
  have "mode = store_mode \<or> mode = compat_mode"
    using assms(1) by (auto simp: BUILD_MODES_def)
  then have guard: "flags (Feature LegacyInjection) \<or> \<not> flags (Feature EvalFallback)"
    using assms(2) by (auto simp: isFeatureEnabled_def store_mode_def compat_mode_def)
  have ok: "originOK (\<lambda>e. \<not> inEmergency e) Engine"
      "originOK (\<lambda>e. \<not> inEmergency e) (Top Primary)" "originOK (\<lambda>e. \<not> inEmergency e) (Inner Primary)"
      "originOK (\<lambda>e. \<not> inEmergency e) (Top Fallback)" "originOK (\<lambda>e. \<not> inEmergency e) (Inner Fallback)"
    by (simp_all add: originOK_def)
  have "emits (\<lambda>e. \<not> inEmergency e) (injectScript flags validate h script)"
    unfolding injectScript_def Let_def using guard ok
    by (intro emits_intros emits_emit)
       (auto intro!: emits_intros emits_emit emits_Compliant emits_Compatibility)
  then show ?thesis by (simp add: emits_def)
qed


theorem emergency_unreachable_in_build_modes_witness:
  "list_all (\<lambda>e. \<not> inEmergency e)
     (events (injectScript (getFeatureFlags compat_mode) allSafe deadHost (mkScript None None None) {}))
   \<and> outcome (injectScript (getFeatureFlags compat_mode) allSafe deadHost (mkScript None None None) {})
       = Inl (HostError (Top Primary) (ExecuteScript EnhancedExecutor MAIN))"
proof -
  have m: "compat_mode \<in> snd ` set BUILD_MODES" by (simp add: BUILD_MODES_def)
  have f: "\<forall>f. getFeatureFlags compat_mode (Feature f) = isFeatureEnabled compat_mode f"
    by (simp add: getFeatureFlags_def)
  have o: "outcome (injectScript (getFeatureFlags compat_mode) allSafe deadHost
             (mkScript None None None) {})
       = Inl (HostError (Top Primary) (ExecuteScript EnhancedExecutor MAIN))"
    by (simp add: injectScript_def run_defs Let_def getFeatureFlags_def compat_mode_def
       isFeatureEnabled_def allSafe_def deadHost_def
       CompliantInjectionStrategy_inject_def CompatibilityInjectionStrategy_inject_def
       injectWithLegacyMethods_def injectViaScripting_def needsIsolation_def getWorldString_def
       mkScript_def list_or_def attachStrategy_def)
  show ?thesis
    using emergency_unreachable_in_build_modes
      [where mode = compat_mode and flags = "getFeatureFlags compat_mode" and validate = allSafe
        and h = deadHost and script = "mkScript None None None" and reg = "{}"] m f o
    by simp
qed

section \<open>The cached capability probe: theorems\<close>








section \<open>The enhanced script executor: theorems\<close>

lemma runDom_console: "consoleLines (snd (runDom ok ds)) = []"
  by (induction ds) (auto split: prod.splits)

lemma runDom_no_create: "CreateElement \<notin> set ds \<Longrightarrow> attempts (snd (runDom ok ds)) = []"
proof (induction ds)
  case Nil then show ?case by simp
next
  case (Cons d ds)
  then show ?case by (cases d) (auto split: prod.splits)
qed

lemma scriptTag_attempts: "attempts (snd (runDom ok (scriptTagSteps ph code))) = [ScriptTag]"
proof -
  let ?rest = "[SetTextContent code, QueryNonce]
     @ (case nonce ph of None \<Rightarrow> [] | Some n \<Rightarrow> if n = [] then [] else [SetNonceAttribute n])
     @ (if trustedTypes ph
        then [CreatePolicy, PolicyCreateScript code, SetTrustedTextContent code]
        else [])
     @ [AppendChild, RemoveElement]"
  have s: "scriptTagSteps ph code = CreateElement # ?rest" by (simp add: scriptTagSteps_def)
  have "CreateElement \<notin> set ?rest" by (auto split: option.splits)
  from runDom_no_create [OF this, of ok]
  show ?thesis unfolding s by (auto split: prod.splits)
qed

lemma attempts_append: "attempts (a @ b) = attempts a @ attempts b"
  by (induction a rule: attempts.induct) auto

lemma consoleLines_append: "consoleLines (a @ b) = consoleLines a @ consoleLines b"
  by (induction a rule: consoleLines.induct) auto

lemma runDom_eq:
  "runDom ok ds = (list_all ok ds, map Dom (takeWhile ok ds @ take 1 (dropWhile ok ds)))"
  by (induction ds) auto

text \<open>
  C8. What the enhanced executor does is fixed by the page. It logs the opening line and
  runs the steps of the script-tag insertion in order up to the first the page makes
  throw. If all complete, it logs the success and stops. Otherwise it logs the warning
  and calls \<open>new Function\<close> on the script's code and, if that returns, the function; if
  both return, it logs the success and stops. Otherwise it logs the warning and calls
  \<open>eval\<close> on the code; it logs the success if \<open>eval\<close> returns and the two errors if not.
  So the methods are tried in the order script tag, Function constructor, \<open>eval\<close>; a
  later one is tried exactly when every earlier one threw; and the console holds the
  opening line and one line for the outcome of every attempt made, plus the closing
  error when all three failed. The steps of a script-tag insertion that completes set
  the nonce found on the page (when there is a non-empty one) and pass the code through
  a Trusted Types policy (when the page has the API) before the element is appended.
\<close>

theorem enhanced_executor_fallback_order:
  "createEnhancedScriptExecutor ph code nm
     = Console Log (Executing nm)
       # map Dom (takeWhile (domCompletes ph) (scriptTagSteps ph code)
                  @ take 1 (dropWhile (domCompletes ph) (scriptTagSteps ph code)))
       @ (if list_all (domCompletes ph) (scriptTagSteps ph code)
          then [Console Log (ScriptTagSuccessful nm)]
          else Console Warn ScriptTagFailed # NewFunction code
             # (if functionConstructs ph \<and> functionReturns ph
                then [CallFunction, Console Log (FunctionConstructorSuccessful nm)]
                else (if functionConstructs ph then [CallFunction] else [])
                   @ Console Warn FunctionConstructorFailed # EvalCall code
                   # (if evalReturns ph
                      then [Console Log (EvalFallbackSuccessful nm)]
                      else [Console ErrorLevel EvalFallbackFailed,
                            Console ErrorLevel (AllMethodsFailed nm)])))
   \<and> attempts (createEnhancedScriptExecutor ph code nm)
     = (if list_all (domCompletes ph) (scriptTagSteps ph code) then [ScriptTag]
        else if functionConstructs ph \<and> functionReturns ph then [ScriptTag, FunctionConstructor]
        else [ScriptTag, FunctionConstructor, EvalFallbackMethod])
   \<and> consoleLines (createEnhancedScriptExecutor ph code nm)
     = (Log, Executing nm) #
       (if list_all (domCompletes ph) (scriptTagSteps ph code) then [(Log, ScriptTagSuccessful nm)]
        else (Warn, ScriptTagFailed) #
          (if functionConstructs ph \<and> functionReturns ph
           then [(Log, FunctionConstructorSuccessful nm)]
           else (Warn, FunctionConstructorFailed) #
             (if evalReturns ph then [(Log, EvalFallbackSuccessful nm)]
              else [(ErrorLevel, EvalFallbackFailed), (ErrorLevel, AllMethodsFailed nm)])))
   \<and> (list_all (domCompletes ph) (scriptTagSteps ph code) \<longrightarrow>
        createEnhancedScriptExecutor ph code nm
          = Console Log (Executing nm)
            # map Dom ([CreateElement, SetTextContent code, QueryNonce]
                @ (case nonce ph of None \<Rightarrow> [] | Some n \<Rightarrow> if n = [] then [] else [SetNonceAttribute n])
                @ (if trustedTypes ph
                   then [CreatePolicy, PolicyCreateScript code, SetTrustedTextContent code] else [])
                @ [AppendChild, RemoveElement])
            @ [Console Log (ScriptTagSuccessful nm)])"
proof -
  let ?ok = "list_all (domCompletes ph) (scriptTagSteps ph code)"
  let ?dom = "map Dom (takeWhile (domCompletes ph) (scriptTagSteps ph code)
                  @ take 1 (dropWhile (domCompletes ph) (scriptTagSteps ph code)))"
  have t1: "tryScriptTagInjection ph code
              = (?ok, if ?ok then ?dom else ?dom @ [Console Warn ScriptTagFailed])"
    by (simp add: tryScriptTagInjection_def runDom_eq)
  have full: "createEnhancedScriptExecutor ph code nm
     = Console Log (Executing nm) # ?dom
       @ (if ?ok
          then [Console Log (ScriptTagSuccessful nm)]
          else Console Warn ScriptTagFailed # NewFunction code
             # (if functionConstructs ph \<and> functionReturns ph
                then [CallFunction, Console Log (FunctionConstructorSuccessful nm)]
                else (if functionConstructs ph then [CallFunction] else [])
                   @ Console Warn FunctionConstructorFailed # EvalCall code
                   # (if evalReturns ph
                      then [Console Log (EvalFallbackSuccessful nm)]
                      else [Console ErrorLevel EvalFallbackFailed,
                            Console ErrorLevel (AllMethodsFailed nm)])))"
    by (simp add: createEnhancedScriptExecutor_def t1 tryFunctionConstructor_def
          tryEvalFallback_def Let_def)
  have da: "attempts ?dom = [ScriptTag]"
    using scriptTag_attempts [of "domCompletes ph" ph code] by (simp add: runDom_eq)
  have dc: "consoleLines ?dom = []"
    using runDom_console [of "domCompletes ph" "scriptTagSteps ph code"] by (simp add: runDom_eq)
  have att: "attempts (createEnhancedScriptExecutor ph code nm)
     = (if ?ok then [ScriptTag]
        else if functionConstructs ph \<and> functionReturns ph then [ScriptTag, FunctionConstructor]
        else [ScriptTag, FunctionConstructor, EvalFallbackMethod])"
    unfolding full using da by (simp add: attempts_append)
  have con: "consoleLines (createEnhancedScriptExecutor ph code nm)
     = (Log, Executing nm) #
       (if ?ok then [(Log, ScriptTagSuccessful nm)]
        else (Warn, ScriptTagFailed) #
          (if functionConstructs ph \<and> functionReturns ph
           then [(Log, FunctionConstructorSuccessful nm)]
           else (Warn, FunctionConstructorFailed) #
             (if evalReturns ph then [(Log, EvalFallbackSuccessful nm)]
              else [(ErrorLevel, EvalFallbackFailed), (ErrorLevel, AllMethodsFailed nm)])))"
    unfolding full using dc by (simp add: consoleLines_append)
  have tw: "?dom = map Dom (scriptTagSteps ph code)" if ok: ?ok
  proof -
    have a: "takeWhile (domCompletes ph) (scriptTagSteps ph code) = scriptTagSteps ph code"
      using ok by (simp add: list_all_iff)
    have b: "dropWhile (domCompletes ph) (scriptTagSteps ph code) = []"
      using ok by (simp add: list_all_iff)
    show ?thesis by (simp add: a b)
  qed
  have succ: "?ok \<longrightarrow>
        createEnhancedScriptExecutor ph code nm
          = Console Log (Executing nm)
            # map Dom ([CreateElement, SetTextContent code, QueryNonce]
                @ (case nonce ph of None \<Rightarrow> [] | Some n \<Rightarrow> if n = [] then [] else [SetNonceAttribute n])
                @ (if trustedTypes ph
                   then [CreatePolicy, PolicyCreateScript code, SetTrustedTextContent code] else [])
                @ [AppendChild, RemoveElement])
            @ [Console Log (ScriptTagSuccessful nm)]"
  proof
    assume ok: ?ok
    show "createEnhancedScriptExecutor ph code nm
          = Console Log (Executing nm)
            # map Dom ([CreateElement, SetTextContent code, QueryNonce]
                @ (case nonce ph of None \<Rightarrow> [] | Some n \<Rightarrow> if n = [] then [] else [SetNonceAttribute n])
                @ (if trustedTypes ph
                   then [CreatePolicy, PolicyCreateScript code, SetTrustedTextContent code] else [])
                @ [AppendChild, RemoveElement])
            @ [Console Log (ScriptTagSuccessful nm)]"
      unfolding full tw [OF ok] using ok by (simp add: scriptTagSteps_def)
  qed
  show ?thesis using full att con succ by blast
qed

theorem enhanced_executor_fallback_order_witness:
  "createEnhancedScriptExecutor evalOnlyPage ''alert(1)'' ''demo''
     = [Console Log (Executing ''demo''), Dom CreateElement, Dom (SetTextContent ''alert(1)''),
        Dom QueryNonce, Dom AppendChild, Console Warn ScriptTagFailed,
        NewFunction ''alert(1)'', Console Warn FunctionConstructorFailed,
        EvalCall ''alert(1)'', Console Log (EvalFallbackSuccessful ''demo'')]
   \<and> attempts (createEnhancedScriptExecutor evalOnlyPage ''alert(1)'' ''demo'')
     = [ScriptTag, FunctionConstructor, EvalFallbackMethod]
   \<and> attempts (createEnhancedScriptExecutor (evalOnlyPage\<lparr> functionConstructs := True \<rparr>)
                 ''alert(1)'' ''demo'')
     = [ScriptTag, FunctionConstructor]
   \<and> consoleLines (createEnhancedScriptExecutor (evalOnlyPage\<lparr> evalReturns := False \<rparr>)
                 ''alert(1)'' ''demo'')
     = [(Log, Executing ''demo''), (Warn, ScriptTagFailed), (Warn, FunctionConstructorFailed),
        (ErrorLevel, EvalFallbackFailed), (ErrorLevel, AllMethodsFailed ''demo'')]
   \<and> createEnhancedScriptExecutor friendlyPage ''alert(1)'' ''demo''
       = [Console Log (Executing ''demo''), Dom CreateElement, Dom (SetTextContent ''alert(1)''),
          Dom QueryNonce, Dom (SetNonceAttribute ''abc123''), Dom CreatePolicy,
          Dom (PolicyCreateScript ''alert(1)''), Dom (SetTrustedTextContent ''alert(1)''),
          Dom AppendChild, Dom RemoveElement, Console Log (ScriptTagSuccessful ''demo'')]"
  using enhanced_executor_fallback_order [of evalOnlyPage "''alert(1)''" "''demo''"]
        enhanced_executor_fallback_order [of "evalOnlyPage\<lparr> functionConstructs := True \<rparr>" "''alert(1)''" "''demo''"]
        enhanced_executor_fallback_order [of "evalOnlyPage\<lparr> evalReturns := False \<rparr>" "''alert(1)''" "''demo''"]
        enhanced_executor_fallback_order [of friendlyPage "''alert(1)''" "''demo''"]
  by (simp add: evalOnlyPage_def friendlyPage_def scriptTagSteps_def)

section \<open>GM\_xmlhttpRequest: theorems\<close>

lemma isAllowed_iff:
  "isAllowed cs h = (\<exists>d \<in> set cs. d = ''*'' \<or> h = d \<or> (\<exists>p. h = p @ ''.'' @ d))"
  by (auto simp: isAllowed_def list_ex_iff suffix_def)

text \<open>
  C10. \<open>handleGMXMLHttpRequest\<close> issues a fetch only when the script is cached, the URL
  parses, and the URL's hostname is whitelisted by the script's \<open>@connect\<close> list (the
  entry \<open>*\<close>, the hostname itself, or an entry of which the hostname is a subdomain);
  then it issues exactly one. When the hostname is not whitelisted, the call returns the
  error response "Domain not whitelisted in @connect: " followed by the hostname and
  issues no fetch.
\<close>

theorem xhr_only_to_whitelisted_hosts:
  "(snd (handleGMXMLHttpRequest net scriptCache payload) \<noteq> [] \<longrightarrow>
      (\<exists>sid d script hostname.
          scriptId payload = Some sid \<and> details payload = Some d
        \<and> scriptCache sid = Some script \<and> hostnameOf net (url d) = Inr hostname
        \<and> (\<exists>domain \<in> set (connect (meta script)).
               domain = ''*'' \<or> hostname = domain \<or> (\<exists>p. hostname = p @ ''.'' @ domain))
        \<and> snd (handleGMXMLHttpRequest net scriptCache payload)
             = [Fetch (url d) (str_or (http_method d) ''GET'')]))
 \<and> (scriptId payload = Some sid \<and> sid \<noteq> [] \<and> details payload = Some d
      \<and> scriptCache sid = Some script \<and> hostnameOf net (url d) = Inr hostname
      \<and> \<not> (\<exists>domain \<in> set (connect (meta script)).
               domain = ''*'' \<or> hostname = domain \<or> (\<exists>p. hostname = p @ ''.'' @ domain))
    \<longrightarrow> handleGMXMLHttpRequest net scriptCache payload
          = (Inr (Error (''Domain not whitelisted in @connect: '' @ hostname)), [])
      \<and> handleAPICall_GM_xmlhttpRequest net scriptCache payload
          = (Error (''Domain not whitelisted in @connect: '' @ hostname), []))"
proof (intro conjI impI)
  assume a: "snd (handleGMXMLHttpRequest net scriptCache payload) \<noteq> []"
  then show "\<exists>sid d script hostname.
          scriptId payload = Some sid \<and> details payload = Some d
        \<and> scriptCache sid = Some script \<and> hostnameOf net (url d) = Inr hostname
        \<and> (\<exists>domain \<in> set (connect (meta script)).
               domain = ''*'' \<or> hostname = domain \<or> (\<exists>p. hostname = p @ ''.'' @ domain))
        \<and> snd (handleGMXMLHttpRequest net scriptCache payload)
             = [Fetch (url d) (str_or (http_method d) ''GET'')]"
    by (auto simp: handleGMXMLHttpRequest_def isAllowed_iff Let_def
          split: option.splits if_splits sum.splits fetch_reply.splits)
next
  assume b: "scriptId payload = Some sid \<and> sid \<noteq> [] \<and> details payload = Some d
      \<and> scriptCache sid = Some script \<and> hostnameOf net (url d) = Inr hostname
      \<and> \<not> (\<exists>domain \<in> set (connect (meta script)).
               domain = ''*'' \<or> hostname = domain \<or> (\<exists>p. hostname = p @ ''.'' @ domain))"
  then have na: "\<not> isAllowed (connect (meta script)) hostname"
    by (simp add: isAllowed_iff)
  show "handleGMXMLHttpRequest net scriptCache payload
          = (Inr (Error (''Domain not whitelisted in @connect: '' @ hostname)), [])"
    using b na by (simp add: handleGMXMLHttpRequest_def)
  then show "handleAPICall_GM_xmlhttpRequest net scriptCache payload
          = (Error (''Domain not whitelisted in @connect: '' @ hostname), [])"
    by (simp add: handleAPICall_GM_xmlhttpRequest_def)
qed

theorem xhr_only_to_whitelisted_hosts_witness:
  "handleAPICall_GM_xmlhttpRequest demoNet demoCache (requestTo ''https://evil.test/steal'')
     = (Error ''Domain not whitelisted in @connect: evil.test'', [])
   \<and> snd (handleGMXMLHttpRequest demoNet demoCache (requestTo ''https://api.example.com/data''))
     = [Fetch ''https://api.example.com/data'' ''GET'']
   \<and> (\<exists>hostname. hostnameOf demoNet ''https://api.example.com/data'' = Inr hostname
        \<and> (\<exists>domain \<in> set (connect (meta connectScript)).
               domain = ''*'' \<or> hostname = domain \<or> (\<exists>p. hostname = p @ ''.'' @ domain)))"
proof -
  have ok: "snd (handleGMXMLHttpRequest demoNet demoCache (requestTo ''https://api.example.com/data''))
              = [Fetch ''https://api.example.com/data'' ''GET'']"
    by (simp add: handleGMXMLHttpRequest_def demoNet_def demoCache_def requestTo_def
          connectScript_def isAllowed_def suffix_def str_or_def)
  then have issued:
    "snd (handleGMXMLHttpRequest demoNet demoCache (requestTo ''https://api.example.com/data'')) \<noteq> []"
    by simp
  from xhr_only_to_whitelisted_hosts
      [where net = demoNet and scriptCache = demoCache
         and payload = "requestTo ''https://api.example.com/data''",
       THEN conjunct1, rule_format, OF issued]
  obtain sid d script hostname where
      f1: "scriptId (requestTo ''https://api.example.com/data'') = Some sid"
    and f2: "details (requestTo ''https://api.example.com/data'') = Some d"
    and f3: "demoCache sid = Some script"
    and f4: "hostnameOf demoNet (url d) = Inr hostname"
    and f5: "\<exists>domain \<in> set (connect (meta script)).
               domain = ''*'' \<or> hostname = domain \<or> (\<exists>p. hostname = p @ ''.'' @ domain)"
    by blast
  from f1 have sid: "sid = ''s1''" by (simp add: requestTo_def)
  from f2 have d: "url d = ''https://api.example.com/data''" by (auto simp: requestTo_def)
  from f3 sid have script: "script = connectScript" by (simp add: demoCache_def)
  have allowed: "\<exists>hostname. hostnameOf demoNet ''https://api.example.com/data'' = Inr hostname
        \<and> (\<exists>domain \<in> set (connect (meta connectScript)).
               domain = ''*'' \<or> hostname = domain \<or> (\<exists>p. hostname = p @ ''.'' @ domain))"
    using f4 f5 d script by auto
  have hyp: "scriptId (requestTo ''https://evil.test/steal'') = Some ''s1'' \<and> ''s1'' \<noteq> []
      \<and> details (requestTo ''https://evil.test/steal'')
          = Some \<lparr> url = ''https://evil.test/steal'', http_method = None, headers = None,
                   request_data = None \<rparr>
      \<and> demoCache ''s1'' = Some connectScript
      \<and> hostnameOf demoNet
          (url \<lparr> url = ''https://evil.test/steal'', http_method = None, headers = None,
                 request_data = None \<rparr>) = Inr ''evil.test''
      \<and> \<not> (\<exists>domain \<in> set (connect (meta connectScript)).
               domain = ''*'' \<or> ''evil.test'' = domain \<or> (\<exists>p. ''evil.test'' = p @ ''.'' @ domain))"
    by (simp add: requestTo_def demoCache_def demoNet_def connectScript_def)
  have denied: "handleAPICall_GM_xmlhttpRequest demoNet demoCache (requestTo ''https://evil.test/steal'')
     = (Error ''Domain not whitelisted in @connect: evil.test'', [])"
    using xhr_only_to_whitelisted_hosts
      [where net = demoNet and scriptCache = demoCache
         and payload = "requestTo ''https://evil.test/steal''" and sid = "''s1''"
         and d = "\<lparr> url = ''https://evil.test/steal'', http_method = None, headers = None,
                     request_data = None \<rparr>"
         and script = connectScript and hostname = "''evil.test''"] hyp
    by simp
  show ?thesis using denied ok allowed by blast
qed

end
